theory Spec2Isabelle
  imports Main "HOL-Library.Word"
begin

section \<open>Bytes, strings and errors\<close>

text \<open>
  An \<open>ArrayBuffer\<close> (and a \<open>Uint8Array\<close> over the whole of it) is the list of its bytes.
  A JavaScript string is modelled as a \<open>string\<close>: the binary strings that \<open>btoa\<close> and
  \<open>atob\<close> exchange have code units 0..255 only, which is what \<open>char\<close> holds. A code unit
  above 255 is not representable; \<open>atob\<close> rejects such a string as it rejects any other
  character outside the base64 alphabet.
\<close>

type_synonym byte = "8 word"
type_synonym bytes = "byte list"

text \<open>
  What the code and the platform functions it calls can throw. \<open>Error msg\<close> is
  \<open>new Error(msg)\<close> of the source; the others are the platform's exceptions.
\<close>

datatype error =
    Error string
  | SyntaxError
  | TypeError
  | InvalidCharacterError
  | DataError
  | OperationError
  | InvalidAccessError
  | NotSupportedError
  | RangeError
  | StorageError
  | NetworkError string

section \<open>Base64: \<open>btoa\<close>, \<open>atob\<close> and the two buffer utilities of crypto.ts\<close>

text \<open>The base64 alphabet: index to character and back.\<close>

definition b64_char :: "nat \<Rightarrow> char" where
  "b64_char i =
     (if i < 26 then char_of (65 + i)
      else if i < 52 then char_of (71 + i)
      else if i < 62 then char_of (i - 4)
      else if i = 62 then CHR ''+''
      else CHR ''/'')"

definition b64_index :: "char \<Rightarrow> nat option" where
  "b64_index c =
     (let n = (of_char c :: nat) in
      if 65 \<le> n \<and> n \<le> 90 then Some (n - 65)
      else if 97 \<le> n \<and> n \<le> 122 then Some (n - 71)
      else if 48 \<le> n \<and> n \<le> 57 then Some (n + 4)
      else if c = CHR ''+'' then Some 62
      else if c = CHR ''/'' then Some 63
      else None)"

text \<open>
  \<open>btoa\<close>: the base64 encoding of a binary string (RFC 4648 with padding), three code
  units to four characters. The code units are read as numbers with \<open>of_char\<close>.
\<close>

fun b64_encode :: "nat list \<Rightarrow> string" where
  "b64_encode (a # b # c # rest) =
     [b64_char (a div 4), b64_char ((a mod 4) * 16 + b div 16),
      b64_char ((b mod 16) * 4 + c div 64), b64_char (c mod 64)] @ b64_encode rest"
| "b64_encode [a, b] =
     [b64_char (a div 4), b64_char ((a mod 4) * 16 + b div 16),
      b64_char ((b mod 16) * 4), CHR ''='']"
| "b64_encode [a] =
     [b64_char (a div 4), b64_char ((a mod 4) * 16), CHR ''='', CHR ''='']"
| "b64_encode [] = []"

definition btoa :: "string \<Rightarrow> string" where
  "btoa binary = b64_encode (map of_char binary)"

text \<open>
  \<open>atob\<close>: the forgiving base64 decoding of the platform. ASCII whitespace is removed;
  when the length is then a multiple of four, up to two trailing \<open>=\<close> are removed; a
  length of 1 modulo 4 and any character outside the alphabet fail with
  \<open>InvalidCharacterError\<close>; the sextets are decoded four at a time, and the bits left over
  in a last group of two or three are dropped.
\<close>

definition ascii_whitespace :: "char \<Rightarrow> bool" where
  "ascii_whitespace c = ((of_char c :: nat) \<in> {9, 10, 12, 13, 32})"

definition strip_padding :: "string \<Rightarrow> string" where
  "strip_padding d =
     (if 2 \<le> length d \<and> last d = CHR ''='' \<and> last (butlast d) = CHR ''=''
        then butlast (butlast d)
      else if d \<noteq> [] \<and> last d = CHR ''='' then butlast d
      else d)"

fun b64_decode :: "nat list \<Rightarrow> nat list" where
  "b64_decode (s1 # s2 # s3 # s4 # rest) =
     [s1 * 4 + s2 div 16, (s2 mod 16) * 16 + s3 div 4, (s3 mod 4) * 64 + s4]
       @ b64_decode rest"
| "b64_decode [s1, s2, s3] = [s1 * 4 + s2 div 16, (s2 mod 16) * 16 + s3 div 4]"
| "b64_decode [s1, s2] = [s1 * 4 + s2 div 16]"
| "b64_decode [s1] = []"
| "b64_decode [] = []"

fun sextets :: "string \<Rightarrow> nat list option" where
  "sextets [] = Some []"
| "sextets (c # cs) =
     (case b64_index c of
        None \<Rightarrow> None
      | Some i \<Rightarrow> (case sextets cs of None \<Rightarrow> None | Some is \<Rightarrow> Some (i # is)))"

definition atob :: "string \<Rightarrow> error + string" where
  "atob data =
     (let d1 = filter (\<lambda>c. \<not> ascii_whitespace c) data;
          d2 = (if length d1 mod 4 = 0 then strip_padding d1 else d1)
      in if length d2 mod 4 = 1 then Inl InvalidCharacterError
         else (case sextets d2 of
                 None \<Rightarrow> Inl InvalidCharacterError
               | Some ss \<Rightarrow> Inr (map char_of (b64_decode ss))))"

text \<open>
  \<open>String.fromCharCode\<close> of a byte, and the code unit of a binary string's character as
  it is stored into a \<open>Uint8Array\<close> (modulo 256).
\<close>

definition fromCharCode :: "byte \<Rightarrow> char" where
  "fromCharCode b = char_of (unat b)"

definition charCode :: "char \<Rightarrow> byte" where
  "charCode c = of_nat (of_char c)"

text \<open>
  \<open>arrayBufferToBase64\<close> (crypto.ts): the loop appends \<open>String.fromCharCode(bytes[i])\<close>
  for \<open>i\<close> from 0 to \<open>byteLength\<close>, then \<open>btoa\<close>.
\<close>

function a2b_loop :: "bytes \<Rightarrow> nat \<Rightarrow> string \<Rightarrow> string" where
  "a2b_loop bs i binary =
     (if i < length bs then a2b_loop bs (Suc i) (binary @ [fromCharCode (bs ! i)]) else binary)"
  by pat_completeness auto
termination
  by (relation "measure (\<lambda>(bs, i, binary). length bs - i)") auto

declare a2b_loop.simps [simp del]

definition arrayBufferToBase64 :: "bytes \<Rightarrow> string" where
  "arrayBufferToBase64 buffer = btoa (a2b_loop buffer 0 [])"

text \<open>
  \<open>base64ToArrayBuffer\<close> (crypto.ts): \<open>atob\<close>, a zero-filled \<open>Uint8Array\<close> of the length of
  the binary string, and the loop storing \<open>binary.charCodeAt(i)\<close> at index \<open>i\<close>.
\<close>

function b2a_loop :: "string \<Rightarrow> nat \<Rightarrow> bytes \<Rightarrow> bytes" where
  "b2a_loop binary i bs =
     (if i < length binary then b2a_loop binary (Suc i) (bs[i := charCode (binary ! i)])
      else bs)"
  by pat_completeness auto
termination
  by (relation "measure (\<lambda>(binary, i, bs). length binary - i)") auto

declare b2a_loop.simps [simp del]

definition base64ToArrayBuffer :: "string \<Rightarrow> error + bytes" where
  "base64ToArrayBuffer base64 =
     (case atob base64 of
        Inl e \<Rightarrow> Inl e
      | Inr binary \<Rightarrow> Inr (b2a_loop binary 0 (replicate (length binary) 0)))"

text \<open>
  The encoding without its padding, which is what \<open>atob\<close> decodes once the trailing
  \<open>=\<close> are removed (used in the round trip proof only).
\<close>

fun b64_core :: "nat list \<Rightarrow> string" where
  "b64_core (a # b # c # rest) =
     [b64_char (a div 4), b64_char ((a mod 4) * 16 + b div 16),
      b64_char ((b mod 16) * 4 + c div 64), b64_char (c mod 64)] @ b64_core rest"
| "b64_core [a, b] =
     [b64_char (a div 4), b64_char ((a mod 4) * 16 + b div 16), b64_char ((b mod 16) * 4)]"
| "b64_core [a] = [b64_char (a div 4), b64_char ((a mod 4) * 16)]"
| "b64_core [] = []"

section \<open>Typed arrays: \<open>set\<close>, \<open>slice\<close> and \<open>concatenateBuffers\<close>\<close>

text \<open>
  \<open>target.set(source, offset)\<close> of a \<open>Uint8Array\<close>: overwrites \<open>length source\<close> bytes from
  \<open>offset\<close>; a source that does not fit throws \<open>RangeError\<close>.
\<close>

definition typed_set :: "bytes \<Rightarrow> bytes \<Rightarrow> nat \<Rightarrow> error + bytes" where
  "typed_set target source offset =
     (if length target < offset + length source then Inl RangeError
      else Inr (take offset target @ source @ drop (offset + length source) target))"

text \<open>
  \<open>array.slice(start, end)\<close> of a \<open>Uint8Array\<close>: a copy in a buffer of its own. A negative
  index counts from the end, and both indices are clamped to the array.
\<close>

definition clamp_index :: "nat \<Rightarrow> int \<Rightarrow> nat" where
  "clamp_index len rel =
     (if rel < 0 then nat (max (int len + rel) 0) else nat (min rel (int len)))"

definition slice :: "bytes \<Rightarrow> int \<Rightarrow> int \<Rightarrow> bytes" where
  "slice xs start end =
     (let k = clamp_index (length xs) start;
          final = clamp_index (length xs) end
      in take (final - k) (drop k xs))"

text \<open>\<open>array.slice(start)\<close>: the end defaults to the length.\<close>

definition slice_from :: "bytes \<Rightarrow> int \<Rightarrow> bytes" where
  "slice_from xs start = slice xs start (int (length xs))"

text \<open>
  \<open>concatenateBuffers\<close> (crypto.ts): the total length by \<open>reduce\<close>, a zero-filled result,
  and the loop that sets each buffer at the running offset.
\<close>

fun concat_loop :: "bytes list \<Rightarrow> bytes \<Rightarrow> nat \<Rightarrow> error + bytes" where
  "concat_loop [] result offset = Inr result"
| "concat_loop (buffer # buffers) result offset =
     (case typed_set result buffer offset of
        Inl e \<Rightarrow> Inl e
      | Inr result' \<Rightarrow> concat_loop buffers result' (offset + length buffer))"

definition concatenateBuffers :: "bytes list \<Rightarrow> error + bytes" where
  "concatenateBuffers buffers =
     (let totalLength = foldl (\<lambda>sum buf. sum + length buf) 0 buffers
      in concat_loop buffers (replicate totalLength 0) 0)"

section \<open>JSON values\<close>

text \<open>
  What \<open>JSON.parse\<close> returns. A number is kept as the string that converting it to a string
  gives; the members of an object are in the order of the text, and a later member of the
  same name replaces an earlier one.
\<close>

datatype json =
    JNull
  | JBool bool
  | JNumber string
  | JString string
  | JArray "json list"
  | JObject "(string \<times> json) list"

text \<open>The value of an expression that may be \<open>undefined\<close>.\<close>

datatype jsval = Undefined | Val json

text \<open>
  \<open>parsed.name\<close> for a parsed value: \<open>TypeError\<close> on \<open>null\<close>, the member on an object that
  has it, and \<open>undefined\<close> otherwise (an object without the member, and a boolean, number,
  string or array, none of which has a property \<open>encryption\<close> or \<open>signing\<close>).
\<close>

fun get_member :: "json \<Rightarrow> string \<Rightarrow> error + jsval" where
  "get_member JNull name = Inl TypeError"
| "get_member (JObject members) name =
     Inr (case map_of (rev members) name of None \<Rightarrow> Undefined | Some v \<Rightarrow> Val v)"
| "get_member _ name = Inr Undefined"

text \<open>
  The conversion to a string that \<open>atob\<close> applies to an argument
  that is not a string: \<open>ToString\<close> of the language.
\<close>

fun join_comma :: "string list \<Rightarrow> string" where
  "join_comma [] = []"
| "join_comma [s] = s"
| "join_comma (s # t # ss) = s @ '','' @ join_comma (t # ss)"

fun json_to_string :: "json \<Rightarrow> string" where
  "json_to_string JNull = ''null''"
| "json_to_string (JBool b) = (if b then ''true'' else ''false'')"
| "json_to_string (JNumber s) = s"
| "json_to_string (JString s) = s"
| "json_to_string (JArray vs) =
     join_comma (map (\<lambda>v. case v of JNull \<Rightarrow> [] | _ \<Rightarrow> json_to_string v) vs)"
| "json_to_string (JObject members) = ''[object Object]''"

fun to_string :: "jsval \<Rightarrow> string" where
  "to_string Undefined = ''undefined''"
| "to_string (Val v) = json_to_string v"

text \<open>
  \<open>JSON.stringify\<close> of a string: quoted, with the quote, the backslash and the control
  characters escaped.
\<close>

definition hex_digit :: "nat \<Rightarrow> char" where
  "hex_digit n = (if n < 10 then char_of (48 + n) else char_of (87 + n))"

definition quote_char :: "char \<Rightarrow> string" where
  "quote_char c =
     (let n = (of_char c :: nat) in
      if n = 8 then [CHR 0x5C, CHR ''b'']
      else if n = 9 then [CHR 0x5C, CHR ''t'']
      else if n = 10 then [CHR 0x5C, CHR ''n'']
      else if n = 12 then [CHR 0x5C, CHR ''f'']
      else if n = 13 then [CHR 0x5C, CHR ''r'']
      else if n = 34 then [CHR 0x5C, CHR 0x22]
      else if n = 92 then [CHR 0x5C, CHR 0x5C]
      else if n < 32 then [CHR 0x5C, CHR ''u'', CHR ''0'', CHR ''0'',
                            hex_digit (n div 16), hex_digit (n mod 16)]
      else [c])"

definition quote_json_string :: "string \<Rightarrow> string" where
  "quote_json_string s = [CHR 0x22] @ concat (map quote_char s) @ [CHR 0x22]"

text \<open>
  \<open>JSON.stringify({ encryption: e, signing: s })\<close> (Login.tsx): the key bundle that is
  uploaded to the directory at registration.
\<close>

definition stringify_bundle :: "string \<Rightarrow> string \<Rightarrow> string" where
  "stringify_bundle e s =
     [CHR ''{''] @ quote_json_string ''encryption'' @ [CHR '':''] @ quote_json_string e
       @ [CHR '',''] @ quote_json_string ''signing'' @ [CHR '':''] @ quote_json_string s
       @ [CHR ''}'']"

section \<open>The platform: \<open>JSON.parse\<close> and \<open>window.crypto.subtle\<close>\<close>

text \<open>
  crypto.ts holds no cryptography of its own: every function is a call of the platform's
  \<open>SubtleCrypto\<close>. The platform is a parameter of the model. Its mathematical primitives
  (SHA-256, RSA key generation, RSA-OAEP, RSA-PSS, AES-GCM, the parsers of the SPKI and PKCS8
  encodings) and \<open>JSON.parse\<close> are the fields of a record; nothing is assumed of them but
  what a theorem states as a hypothesis. Keys are byte strings in their interchange
  encoding: SPKI for a public key, PKCS8 for a private key, the raw bytes for an AES key.
  Randomness is an explicit argument (\<open>seed\<close>, \<open>salt\<close>, \<open>entropy\<close>).
\<close>

record platform =
  json_parse :: "string \<Rightarrow> json option"
  sha256 :: "bytes \<Rightarrow> bytes"
  rsa_keygen :: "bytes \<Rightarrow> bytes \<times> bytes"
  spki_valid :: "bytes \<Rightarrow> bool"
  pkcs8_valid :: "bytes \<Rightarrow> bool"
  oaep_encrypt :: "bytes \<Rightarrow> bytes \<Rightarrow> bytes \<Rightarrow> bytes option"
  oaep_decrypt :: "bytes \<Rightarrow> bytes \<Rightarrow> bytes option"
  pss_sign :: "bytes \<Rightarrow> nat \<Rightarrow> bytes \<Rightarrow> bytes \<Rightarrow> bytes"
  pss_verify :: "bytes \<Rightarrow> nat \<Rightarrow> bytes \<Rightarrow> bytes \<Rightarrow> bool"
  gcm_encrypt :: "bytes \<Rightarrow> bytes \<Rightarrow> bytes \<Rightarrow> bytes"
  gcm_decrypt :: "bytes \<Rightarrow> bytes \<Rightarrow> bytes \<Rightarrow> bytes option"

text \<open>
  \<open>JSON.parse\<close>: the parsed value, or \<open>SyntaxError\<close>.
\<close>

definition JSON_parse :: "platform \<Rightarrow> string \<Rightarrow> error + json" where
  "JSON_parse P text = (case json_parse P text of None \<Rightarrow> Inl SyntaxError | Some v \<Rightarrow> Inr v)"

text \<open>
  \<open>n\<close> random bytes: the first \<open>n\<close> bytes of the entropy handed in (zeros only if it
  is shorter).
\<close>

definition random_fill :: "nat \<Rightarrow> bytes \<Rightarrow> bytes" where
  "random_fill n entropy = take n (entropy @ replicate n 0)"

subsection \<open>\<open>CryptoKey\<close>\<close>

datatype alg_name = RSA_OAEP | RSA_PSS | AES_GCM

datatype key_kind = Public | Private | Secret

datatype key_usage = Encrypt | Decrypt | Sign | Verify

datatype key_format = Spki | Pkcs8 | Raw

record CryptoKey =
  key_algorithm :: alg_name
  key_type :: key_kind
  key_extractable :: bool
  key_usages :: "key_usage list"
  key_material :: bytes

record CryptoKeyPair =
  publicKey :: CryptoKey
  privateKey :: CryptoKey

text \<open>The algorithm argument of \<open>encrypt\<close>, \<open>decrypt\<close>, \<open>sign\<close> and \<open>verify\<close>.\<close>

datatype alg_params =
    RsaOaepParams
  | AesGcmParams bytes
  | RsaPssParams nat

fun params_name :: "alg_params \<Rightarrow> alg_name" where
  "params_name RsaOaepParams = RSA_OAEP"
| "params_name (AesGcmParams iv) = AES_GCM"
| "params_name (RsaPssParams saltLength) = RSA_PSS"

subsection \<open>\<open>SubtleCrypto\<close>, after the Web Cryptography API\<close>

text \<open>
  Each operation first rejects an algorithm it does not support (\<open>NotSupportedError\<close>),
  then a key whose algorithm is not the requested one or whose usages do not include the
  operation (\<open>InvalidAccessError\<close>), and only then runs the primitive, whose failure is
  an \<open>OperationError\<close>.
\<close>

text \<open>
  The usages a key of a format and algorithm may be imported with (\<open>wrapKey\<close> and
  \<open>unwrapKey\<close>, which the code never names, are left out); \<open>None\<close> for a combination
  the platform does not support.
\<close>

fun allowed_usages :: "key_format \<Rightarrow> alg_name \<Rightarrow> key_usage list option" where
  "allowed_usages Spki RSA_OAEP = Some [Encrypt]"
| "allowed_usages Pkcs8 RSA_OAEP = Some [Decrypt]"
| "allowed_usages Spki RSA_PSS = Some [Verify]"
| "allowed_usages Pkcs8 RSA_PSS = Some [Sign]"
| "allowed_usages Raw AES_GCM = Some [Encrypt, Decrypt]"
| "allowed_usages _ _ = None"

fun format_kind :: "key_format \<Rightarrow> key_kind" where
  "format_kind Spki = Public"
| "format_kind Pkcs8 = Private"
| "format_kind Raw = Secret"

text \<open>
  Whether the key data parses. The SPKI and PKCS8 encodings of an RSA key name the
  algorithm \<open>rsaEncryption\<close> whatever the key is used for, so the check does not depend on
  the algorithm the key is imported for. A raw AES key has 128, 192 or 256 bits.
\<close>

fun data_valid :: "platform \<Rightarrow> key_format \<Rightarrow> bytes \<Rightarrow> bool" where
  "data_valid P Spki keyData = spki_valid P keyData"
| "data_valid P Pkcs8 keyData = pkcs8_valid P keyData"
| "data_valid P Raw keyData = (length keyData \<in> {16, 24, 32})"

definition subtle_importKey ::
  "platform \<Rightarrow> key_format \<Rightarrow> bytes \<Rightarrow> alg_name \<Rightarrow> bool \<Rightarrow> key_usage list \<Rightarrow> error + CryptoKey"
where
  "subtle_importKey P fmt keyData alg extractable usages =
     (case allowed_usages fmt alg of
        None \<Rightarrow> Inl NotSupportedError
      | Some allowed \<Rightarrow>
          if \<not> set usages \<subseteq> set allowed then Inl SyntaxError
          else if \<not> data_valid P fmt keyData then Inl DataError
          else if format_kind fmt \<noteq> Public \<and> usages = [] then Inl SyntaxError
          else Inr \<lparr>key_algorithm = alg, key_type = format_kind fmt,
                    key_extractable = extractable, key_usages = usages,
                    key_material = keyData\<rparr>)"

definition subtle_exportKey :: "key_format \<Rightarrow> CryptoKey \<Rightarrow> error + bytes" where
  "subtle_exportKey fmt key =
     (if allowed_usages fmt (key_algorithm key) = None then Inl NotSupportedError
      else if \<not> key_extractable key then Inl InvalidAccessError
      else if key_type key \<noteq> format_kind fmt then Inl InvalidAccessError
      else Inr (key_material key))"

definition subtle_encrypt ::
  "platform \<Rightarrow> alg_params \<Rightarrow> CryptoKey \<Rightarrow> bytes \<Rightarrow> bytes \<Rightarrow> error + bytes"
where
  "subtle_encrypt P params key seed data =
     (if params_name params = RSA_PSS then Inl NotSupportedError
      else if params_name params \<noteq> key_algorithm key \<or> Encrypt \<notin> set (key_usages key)
        then Inl InvalidAccessError
      else (case params of
              RsaOaepParams \<Rightarrow>
                if key_type key \<noteq> Public then Inl InvalidAccessError
                else (case oaep_encrypt P (key_material key) seed data of
                        None \<Rightarrow> Inl OperationError
                      | Some c \<Rightarrow> Inr c)
            | AesGcmParams iv \<Rightarrow> Inr (gcm_encrypt P (key_material key) iv data)
            | RsaPssParams saltLength \<Rightarrow> Inl NotSupportedError))"

definition subtle_decrypt ::
  "platform \<Rightarrow> alg_params \<Rightarrow> CryptoKey \<Rightarrow> bytes \<Rightarrow> error + bytes"
where
  "subtle_decrypt P params key data =
     (if params_name params = RSA_PSS then Inl NotSupportedError
      else if params_name params \<noteq> key_algorithm key \<or> Decrypt \<notin> set (key_usages key)
        then Inl InvalidAccessError
      else (case params of
              RsaOaepParams \<Rightarrow>
                if key_type key \<noteq> Private then Inl InvalidAccessError
                else (case oaep_decrypt P (key_material key) data of
                        None \<Rightarrow> Inl OperationError
                      | Some m \<Rightarrow> Inr m)
            | AesGcmParams iv \<Rightarrow>
                (case gcm_decrypt P (key_material key) iv data of
                   None \<Rightarrow> Inl OperationError
                 | Some m \<Rightarrow> Inr m)
            | RsaPssParams saltLength \<Rightarrow> Inl NotSupportedError))"

definition subtle_sign ::
  "platform \<Rightarrow> alg_params \<Rightarrow> CryptoKey \<Rightarrow> bytes \<Rightarrow> bytes \<Rightarrow> error + bytes"
where
  "subtle_sign P params key salt data =
     (if params_name params \<noteq> RSA_PSS then Inl NotSupportedError
      else if params_name params \<noteq> key_algorithm key \<or> Sign \<notin> set (key_usages key)
        then Inl InvalidAccessError
      else (case params of
              RsaPssParams saltLength \<Rightarrow>
                if key_type key \<noteq> Private then Inl InvalidAccessError
                else Inr (pss_sign P (key_material key) saltLength
                            (random_fill saltLength salt) data)
            | _ \<Rightarrow> Inl NotSupportedError))"

definition subtle_verify ::
  "platform \<Rightarrow> alg_params \<Rightarrow> CryptoKey \<Rightarrow> bytes \<Rightarrow> bytes \<Rightarrow> error + bool"
where
  "subtle_verify P params key signature data =
     (if params_name params \<noteq> RSA_PSS then Inl NotSupportedError
      else if params_name params \<noteq> key_algorithm key \<or> Verify \<notin> set (key_usages key)
        then Inl InvalidAccessError
      else (case params of
              RsaPssParams saltLength \<Rightarrow>
                if key_type key \<noteq> Public then Inl InvalidAccessError
                else Inr (pss_verify P (key_material key) saltLength signature data)
            | _ \<Rightarrow> Inl NotSupportedError))"

definition subtle_digest :: "platform \<Rightarrow> bytes \<Rightarrow> bytes" where
  "subtle_digest P data = sha256 P data"

text \<open>
  \<open>generateKey\<close> for an RSA algorithm: the public key takes the requested usages that a
  public key may have and is always extractable, the private key takes the others; no
  usage for the private key is a \<open>SyntaxError\<close>.
\<close>

definition subtle_generateKey_rsa ::
  "platform \<Rightarrow> alg_name \<Rightarrow> bool \<Rightarrow> key_usage list \<Rightarrow> bytes \<Rightarrow> error + CryptoKeyPair"
where
  "subtle_generateKey_rsa P alg extractable usages entropy =
     (case (allowed_usages Spki alg, allowed_usages Pkcs8 alg) of
        (Some pub_allowed, Some priv_allowed) \<Rightarrow>
          if \<not> set usages \<subseteq> set pub_allowed \<union> set priv_allowed then Inl SyntaxError
          else if filter (\<lambda>u. u \<in> set priv_allowed) usages = [] then Inl SyntaxError
          else
            (let (spki, pkcs8) = rsa_keygen P entropy in
             Inr \<lparr>publicKey =
                    \<lparr>key_algorithm = alg, key_type = Public, key_extractable = True,
                     key_usages = filter (\<lambda>u. u \<in> set pub_allowed) usages,
                     key_material = spki\<rparr>,
                  privateKey =
                    \<lparr>key_algorithm = alg, key_type = Private, key_extractable = extractable,
                     key_usages = filter (\<lambda>u. u \<in> set priv_allowed) usages,
                     key_material = pkcs8\<rparr>\<rparr>)
      | _ \<Rightarrow> Inl NotSupportedError)"

definition subtle_generateKey_aes ::
  "nat \<Rightarrow> bool \<Rightarrow> key_usage list \<Rightarrow> bytes \<Rightarrow> error + CryptoKey"
where
  "subtle_generateKey_aes bits extractable usages entropy =
     (if \<not> set usages \<subseteq> {Encrypt, Decrypt} then Inl SyntaxError
      else if bits \<notin> {128, 192, 256} then Inl OperationError
      else if usages = [] then Inl SyntaxError
      else Inr \<lparr>key_algorithm = AES_GCM, key_type = Secret, key_extractable = extractable,
                key_usages = usages, key_material = random_fill (bits div 8) entropy\<rparr>)"

section \<open>crypto.ts\<close>

text \<open>A call that throws ends the function; \<open>bind\<close> is the sequencing of \<open>await\<close>.\<close>

definition bind :: "error + 'a \<Rightarrow> ('a \<Rightarrow> error + 'b) \<Rightarrow> error + 'b" where
  "bind m f = (case m of Inl e \<Rightarrow> Inl e | Inr x \<Rightarrow> f x)"

definition generateKeyPair :: "platform \<Rightarrow> bytes \<Rightarrow> error + CryptoKeyPair" where
  "generateKeyPair P entropy =
     subtle_generateKey_rsa P RSA_OAEP True [Encrypt, Decrypt] entropy"

definition generateSigningKeyPair :: "platform \<Rightarrow> bytes \<Rightarrow> error + CryptoKeyPair" where
  "generateSigningKeyPair P entropy =
     subtle_generateKey_rsa P RSA_PSS True [Sign, Verify] entropy"

definition exportPublicKey :: "CryptoKey \<Rightarrow> error + string" where
  "exportPublicKey key =
     bind (subtle_exportKey Spki key) (\<lambda>exported. Inr (arrayBufferToBase64 exported))"

definition exportPrivateKey :: "CryptoKey \<Rightarrow> error + string" where
  "exportPrivateKey key =
     bind (subtle_exportKey Pkcs8 key) (\<lambda>exported. Inr (arrayBufferToBase64 exported))"

definition importPublicKey :: "platform \<Rightarrow> string \<Rightarrow> error + CryptoKey" where
  "importPublicKey P base64Key =
     bind (base64ToArrayBuffer base64Key)
       (\<lambda>keyData. subtle_importKey P Spki keyData RSA_OAEP True [Encrypt])"

definition importPrivateKey :: "platform \<Rightarrow> string \<Rightarrow> error + CryptoKey" where
  "importPrivateKey P base64Key =
     bind (base64ToArrayBuffer base64Key)
       (\<lambda>keyData. subtle_importKey P Pkcs8 keyData RSA_OAEP True [Decrypt])"

definition importSigningPublicKey :: "platform \<Rightarrow> string \<Rightarrow> error + CryptoKey" where
  "importSigningPublicKey P base64Key =
     bind (base64ToArrayBuffer base64Key)
       (\<lambda>keyData. subtle_importKey P Spki keyData RSA_PSS True [Verify])"

definition importSigningPrivateKey :: "platform \<Rightarrow> string \<Rightarrow> error + CryptoKey" where
  "importSigningPrivateKey P base64Key =
     bind (base64ToArrayBuffer base64Key)
       (\<lambda>keyData. subtle_importKey P Pkcs8 keyData RSA_PSS True [Sign])"

definition generateAESKey :: "bytes \<Rightarrow> error + CryptoKey" where
  "generateAESKey entropy = subtle_generateKey_aes 256 True [Encrypt, Decrypt] entropy"

definition generateNonce :: "bytes \<Rightarrow> bytes" where
  "generateNonce entropy = random_fill 12 entropy"

definition encryptFile :: "platform \<Rightarrow> bytes \<Rightarrow> CryptoKey \<Rightarrow> bytes \<Rightarrow> error + bytes" where
  "encryptFile P file aesKey nonce = subtle_encrypt P (AesGcmParams nonce) aesKey [] file"

definition decryptFile :: "platform \<Rightarrow> bytes \<Rightarrow> CryptoKey \<Rightarrow> bytes \<Rightarrow> error + bytes" where
  "decryptFile P encryptedData aesKey nonce =
     subtle_decrypt P (AesGcmParams nonce) aesKey encryptedData"

definition encryptAESKey ::
  "platform \<Rightarrow> CryptoKey \<Rightarrow> CryptoKey \<Rightarrow> bytes \<Rightarrow> error + bytes"
where
  "encryptAESKey P aesKey receiverPublicKey seed =
     bind (subtle_exportKey Raw aesKey)
       (\<lambda>rawKey. subtle_encrypt P RsaOaepParams receiverPublicKey seed rawKey)"

definition decryptAESKey :: "platform \<Rightarrow> bytes \<Rightarrow> CryptoKey \<Rightarrow> error + CryptoKey" where
  "decryptAESKey P encryptedAESKey privKey =
     bind (subtle_decrypt P RsaOaepParams privKey encryptedAESKey)
       (\<lambda>rawKey. subtle_importKey P Raw rawKey AES_GCM True [Decrypt])"

definition signData :: "platform \<Rightarrow> bytes \<Rightarrow> CryptoKey \<Rightarrow> bytes \<Rightarrow> error + bytes" where
  "signData P data privKey salt = subtle_sign P (RsaPssParams 32) privKey salt data"

definition verifySignature ::
  "platform \<Rightarrow> bytes \<Rightarrow> bytes \<Rightarrow> CryptoKey \<Rightarrow> error + bool"
where
  "verifySignature P signature data pubKey =
     subtle_verify P (RsaPssParams 32) pubKey signature data"

definition hashData :: "platform \<Rightarrow> bytes \<Rightarrow> bytes" where
  "hashData P data = subtle_digest P data"

section \<open>keyStorage: the local key store\<close>

text \<open>
  The object store \<open>keys\<close> of the IndexedDB database maps a key name to the stored string.
  Opening the database or running the transaction may fail; \<open>idb\<close> is what the database
  gives: the error, or the store.
\<close>

type_synonym object_store = "string \<rightharpoonup> string"
type_synonym idb = "error + object_store"

record StoredKeys =
  encryptionPublicKey :: string
  encryptionPrivateKey :: string
  signingPublicKey :: string
  signingPrivateKey :: string

definition storeKeys :: "idb \<Rightarrow> StoredKeys \<Rightarrow> error + object_store" where
  "storeKeys db keys =
     bind db (\<lambda>store.
       Inr (store(''encryptionPublicKey'' \<mapsto> encryptionPublicKey keys,
                  ''encryptionPrivateKey'' \<mapsto> encryptionPrivateKey keys,
                  ''signingPublicKey'' \<mapsto> signingPublicKey keys,
                  ''signingPrivateKey'' \<mapsto> signingPrivateKey keys)))"

text \<open>
  The result of \<open>store.get(name)\<close> in a condition: \<open>undefined\<close> for a missing entry and
  the empty string are both falsy.
\<close>

definition truthy :: "string option \<Rightarrow> bool" where
  "truthy r = (case r of None \<Rightarrow> False | Some s \<Rightarrow> s \<noteq> [])"

definition getKeys :: "idb \<Rightarrow> error + StoredKeys option" where
  "getKeys db =
     bind db (\<lambda>store.
       let encPubRequest = store ''encryptionPublicKey'';
           encPrivRequest = store ''encryptionPrivateKey'';
           sigPubRequest = store ''signingPublicKey'';
           sigPrivRequest = store ''signingPrivateKey''
       in if truthy encPubRequest \<and> truthy encPrivRequest
             \<and> truthy sigPubRequest \<and> truthy sigPrivRequest
          then Inr (Some \<lparr>encryptionPublicKey = the encPubRequest,
                          encryptionPrivateKey = the encPrivRequest,
                          signingPublicKey = the sigPubRequest,
                          signingPrivateKey = the sigPrivRequest\<rparr>)
          else Inr None)"

definition clearKeys :: "idb \<Rightarrow> error + object_store" where
  "clearKeys db = bind db (\<lambda>store. Inr Map.empty)"

definition hasKeys :: "idb \<Rightarrow> error + bool" where
  "hasKeys db = bind (getKeys db) (\<lambda>keys. Inr (keys \<noteq> None))"

section \<open>api.ts: what goes over the wire\<close>

text \<open>
  The fields keep the names of the source behind a prefix (\<open>p_\<close> for the payload of
  \<open>sendFile\<close>, \<open>d_\<close> for the result of \<open>downloadFile\<close>, \<open>i_\<close> for an inbox entry, \<open>r_\<close> for
  the result of \<open>getReceiverPublicKey\<close>). A \<open>Blob\<close> is the list of its bytes.
\<close>

record SendFilePayload =
  p_receiverId :: string
  p_encryptedAESKey :: string
  p_nonce :: string
  p_authTag :: string
  p_signature :: string
  p_senderPublicKey :: string
  p_file :: bytes
  p_fileName :: string

record DownloadedFile =
  d_encryptedFile :: bytes
  d_encryptedAESKey :: string
  d_nonce :: string
  d_authTag :: string
  d_signature :: string
  d_senderPublicKey :: string
  d_fileName :: string

record InboxFile =
  i_fileId :: string
  i_fileName :: string
  i_senderId :: string
  i_uploadedAt :: string

record ReceiverData =
  r_userId :: string
  r_publicKey :: string

record SelectedFile =
  f_name :: string
  f_bytes :: bytes

section \<open>The components: key provisioning, send and receive\<close>

subsection \<open>Calls and their log\<close>

text \<open>
  A handler is a sequence of awaited calls inside one \<open>try\<close> block. The model threads a log
  of the calls made, in order, so that what was invoked and what was not can be read off a
  run: an action takes the log so far and returns its result, or the exception thrown,
  with the log extended.
\<close>

datatype event =
    CallGetKeys
  | CallDownloadFile string
  | CallGenerateAESKey
  | CallGenerateNonce
  | CallEncryptFile
  | CallImportPublicKey string
  | CallEncryptAESKey
  | CallImportSigningPrivateKey
  | CallSignData bytes
  | CallSendFile SendFilePayload
  | CallImportSigningPublicKey string
  | CallHashData bytes
  | CallVerifySignature bytes bytes "error + bool"
  | CallImportPrivateKey
  | CallDecryptAESKey bytes
  | CallDecryptFile bytes bytes
  | SaveFile string bytes

type_synonym 'a action = "event list \<Rightarrow> (error + 'a) \<times> event list"

definition call :: "event \<Rightarrow> error + 'a \<Rightarrow> 'a action" where
  "call ev r = (\<lambda>log. (r, log @ [ev]))"

definition pure :: "error + 'a \<Rightarrow> 'a action" where
  "pure r = (\<lambda>log. (r, log))"

definition seq :: "'a action \<Rightarrow> ('a \<Rightarrow> 'b action) \<Rightarrow> 'b action" where
  "seq m f = (\<lambda>log. case m log of (Inl e, log') \<Rightarrow> (Inl e, log') | (Inr x, log') \<Rightarrow> f x log')"

text \<open>\<open>try { body } catch { handler }\<close> around a computation without calls.\<close>

definition try_catch :: "error + 'a \<Rightarrow> (error \<Rightarrow> error + 'a) \<Rightarrow> error + 'a" where
  "try_catch body handler = (case body of Inl e \<Rightarrow> handler e | Inr v \<Rightarrow> Inr v)"

subsection \<open>Parsing a key bundle\<close>

text \<open>
  SendFile.tsx, the receiver's key: \<open>JSON.parse\<close> and the member \<open>encryption\<close>, and in the
  \<open>catch\<close> the string itself. ReceiveFiles.tsx, the sender's key: the same with the member
  \<open>signing\<close>. Both the parse and the member access are inside the \<open>try\<close>.
\<close>

definition parseReceiverKey :: "platform \<Rightarrow> string \<Rightarrow> error + jsval" where
  "parseReceiverKey P publicKeyText =
     try_catch
       (bind (JSON_parse P publicKeyText) (\<lambda>parsed. get_member parsed ''encryption''))
       (\<lambda>e. Inr (Val (JString publicKeyText)))"

definition parseSenderKey :: "platform \<Rightarrow> string \<Rightarrow> error + jsval" where
  "parseSenderKey P senderPublicKeyText =
     try_catch
       (bind (JSON_parse P senderPublicKeyText) (\<lambda>parsed. get_member parsed ''signing''))
       (\<lambda>e. Inr (Val (JString senderPublicKeyText)))"

subsection \<open>Login.tsx: provisioning the keys of a new user\<close>

text \<open>
  The part of \<open>handleCredentialResponse\<close> for a new user: both key pairs are generated and
  exported, the four strings are stored, and the two public keys are uploaded as one JSON
  string. The result is the store and the uploaded string.
\<close>

definition provisionKeys ::
  "platform \<Rightarrow> idb \<Rightarrow> bytes \<Rightarrow> bytes \<Rightarrow> error + (object_store \<times> string)"
where
  "provisionKeys P db entropy1 entropy2 =
     bind (generateKeyPair P entropy1) (\<lambda>encryptionKeyPair.
     bind (generateSigningKeyPair P entropy2) (\<lambda>signingKeyPair.
     bind (exportPublicKey (publicKey encryptionKeyPair)) (\<lambda>encPub.
     bind (exportPrivateKey (privateKey encryptionKeyPair)) (\<lambda>encPriv.
     bind (exportPublicKey (publicKey signingKeyPair)) (\<lambda>sigPub.
     bind (exportPrivateKey (privateKey signingKeyPair)) (\<lambda>sigPriv.
     bind (storeKeys db \<lparr>encryptionPublicKey = encPub, encryptionPrivateKey = encPriv,
                         signingPublicKey = sigPub, signingPrivateKey = sigPriv\<rparr>) (\<lambda>store.
     let combinedPublicKey = stringify_bundle encPub sigPub
     in Inr (store, combinedPublicKey))))))))"

subsection \<open>SendFile.tsx: \<open>handleSend\<close>\<close>

text \<open>The randomness one send consumes.\<close>

record entropy =
  aes_entropy :: bytes
  nonce_entropy :: bytes
  oaep_seed :: bytes
  pss_salt :: bytes

text \<open>
  The split of the AES-GCM output at its last 16 bytes (lines 88 to 91), and the bytes that
  are hashed and signed (lines 110 to 114).
\<close>

definition authTagLength :: int where
  "authTagLength = 16"

definition split_ciphertext :: "bytes \<Rightarrow> bytes" where
  "split_ciphertext encryptedFile =
     slice encryptedFile 0 (int (length encryptedFile) - authTagLength)"

definition split_authTag :: "bytes \<Rightarrow> bytes" where
  "split_authTag encryptedFile =
     slice_from encryptedFile (int (length encryptedFile) - authTagLength)"

definition dataToSign :: "bytes \<Rightarrow> bytes \<Rightarrow> bytes \<Rightarrow> error + bytes" where
  "dataToSign ciphertext nonce authTag = concatenateBuffers [ciphertext, nonce, authTag]"

text \<open>The body of the \<open>try\<close> block of \<open>handleSend\<close>.\<close>

definition handleSend_body ::
  "platform \<Rightarrow> idb \<Rightarrow> (SendFilePayload \<Rightarrow> error + string) \<Rightarrow> entropy
     \<Rightarrow> SelectedFile \<Rightarrow> ReceiverData \<Rightarrow> string action"
where
  "handleSend_body P db send rnd selectedFile receiverData =
     seq (call CallGetKeys (getKeys db)) (\<lambda>keys_opt.
     case keys_opt of
       None \<Rightarrow> pure (Inl (Error ''Local keys not found''))
     | Some keys \<Rightarrow>
     let fileBuffer = f_bytes selectedFile in
     seq (call CallGenerateAESKey (generateAESKey (aes_entropy rnd))) (\<lambda>aesKey.
     seq (call CallGenerateNonce (Inr (generateNonce (nonce_entropy rnd)))) (\<lambda>nonce.
     seq (call CallEncryptFile (encryptFile P fileBuffer aesKey nonce)) (\<lambda>encryptedFile.
     let ciphertext = split_ciphertext encryptedFile;
         authTag = split_authTag encryptedFile in
     seq (pure (parseReceiverKey P (r_publicKey receiverData))) (\<lambda>receiverEncryptionKey.
     seq (call (CallImportPublicKey (to_string receiverEncryptionKey))
            (importPublicKey P (to_string receiverEncryptionKey))) (\<lambda>receiverPublicKey.
     seq (call CallEncryptAESKey
            (encryptAESKey P aesKey receiverPublicKey (oaep_seed rnd))) (\<lambda>encryptedAESKey.
     seq (pure (dataToSign ciphertext nonce authTag)) (\<lambda>toSign.
     seq (call (CallHashData toSign) (Inr (hashData P toSign))) (\<lambda>hash.
     seq (call CallImportSigningPrivateKey
            (importSigningPrivateKey P (signingPrivateKey keys))) (\<lambda>signingKey.
     seq (call (CallSignData hash) (signData P hash signingKey (pss_salt rnd))) (\<lambda>signature.
     let payload =
           \<lparr>p_receiverId = r_userId receiverData,
            p_encryptedAESKey = arrayBufferToBase64 encryptedAESKey,
            p_nonce = arrayBufferToBase64 nonce,
            p_authTag = arrayBufferToBase64 authTag,
            p_signature = arrayBufferToBase64 signature,
            p_senderPublicKey = signingPublicKey keys,
            p_file = ciphertext,
            p_fileName = f_name selectedFile\<rparr>
     in call (CallSendFile payload) (send payload))))))))))))"

text \<open>
  The component state a handler leaves: \<open>unchanged\<close> when it returns at once, else
  \<open>success\<close> or \<open>error\<close> with what was caught.
\<close>

datatype outcome = Unchanged | Success | Failed error

definition handleSend ::
  "platform \<Rightarrow> idb \<Rightarrow> (SendFilePayload \<Rightarrow> error + string) \<Rightarrow> entropy
     \<Rightarrow> SelectedFile option \<Rightarrow> ReceiverData option \<Rightarrow> outcome \<times> event list"
where
  "handleSend P db send rnd selectedFile receiverData =
     (case (selectedFile, receiverData) of
        (Some file, Some receiver) \<Rightarrow>
          (case handleSend_body P db send rnd file receiver [] of
             (Inl err, log) \<Rightarrow> (Failed err, log)
           | (Inr result, log) \<Rightarrow> (Success, log))
      | _ \<Rightarrow> (Unchanged, []))"

subsection \<open>ReceiveFiles.tsx: \<open>handleDownload\<close>\<close>

text \<open>The bytes whose hash is verified (lines 81 to 85).\<close>

definition dataToVerify :: "bytes \<Rightarrow> bytes \<Rightarrow> bytes \<Rightarrow> error + bytes" where
  "dataToVerify encryptedFileBuffer nonce authTag =
     concatenateBuffers [encryptedFileBuffer, nonce, authTag]"

text \<open>The ciphertext rejoined with its tag for AES-GCM (lines 103 to 105).\<close>

definition ciphertextWithTag :: "bytes \<Rightarrow> bytes \<Rightarrow> error + bytes" where
  "ciphertextWithTag encryptedFileBuffer authTag =
     bind (typed_set (replicate (length encryptedFileBuffer + length authTag) 0)
             encryptedFileBuffer 0)
       (\<lambda>joined. typed_set joined authTag (length encryptedFileBuffer))"

text \<open>\<open>downloadedFile.fileName || file.fileName\<close>.\<close>

definition saveName :: "DownloadedFile \<Rightarrow> InboxFile \<Rightarrow> string" where
  "saveName downloadedFile file =
     (if d_fileName downloadedFile \<noteq> [] then d_fileName downloadedFile else i_fileName file)"

text \<open>The decryption, from \<open>setProgress('Decrypting file...')\<close> to the saved file.\<close>

definition decrypt_and_save ::
  "platform \<Rightarrow> StoredKeys \<Rightarrow> DownloadedFile \<Rightarrow> InboxFile \<Rightarrow> bytes \<Rightarrow> bytes \<Rightarrow> unit action"
where
  "decrypt_and_save P keys downloadedFile file nonce authTag =
     seq (pure (base64ToArrayBuffer (d_encryptedAESKey downloadedFile))) (\<lambda>encryptedAESKey.
     seq (call CallImportPrivateKey
            (importPrivateKey P (encryptionPrivateKey keys))) (\<lambda>privKey.
     seq (call (CallDecryptAESKey encryptedAESKey)
            (decryptAESKey P encryptedAESKey privKey)) (\<lambda>aesKey.
     seq (pure (ciphertextWithTag (d_encryptedFile downloadedFile) authTag)) (\<lambda>joined.
     seq (call (CallDecryptFile joined nonce) (decryptFile P joined aesKey nonce))
       (\<lambda>decryptedBuffer.
     call (SaveFile (saveName downloadedFile file) decryptedBuffer) (Inr ()))))))"

text \<open>The message of the error thrown when \<open>isValid\<close> is false.\<close>

definition verification_failed :: string where
  "verification_failed =
     ''Signature verification failed - file may be tampered or not from claimed sender''"

text \<open>The body of the \<open>try\<close> block of \<open>handleDownload\<close>.\<close>

definition handleDownload_body ::
  "platform \<Rightarrow> idb \<Rightarrow> (string \<Rightarrow> error + DownloadedFile) \<Rightarrow> InboxFile \<Rightarrow> unit action"
where
  "handleDownload_body P db download file =
     seq (call CallGetKeys (getKeys db)) (\<lambda>keys_opt.
     case keys_opt of
       None \<Rightarrow> pure (Inl (Error ''Local keys not found''))
     | Some keys \<Rightarrow>
     seq (call (CallDownloadFile (i_fileId file)) (download (i_fileId file)))
       (\<lambda>downloadedFile.
     seq (pure (parseSenderKey P (d_senderPublicKey downloadedFile))) (\<lambda>senderSigningKey.
     seq (call (CallImportSigningPublicKey (to_string senderSigningKey))
            (importSigningPublicKey P (to_string senderSigningKey))) (\<lambda>signingKey.
     let encryptedFileBuffer = d_encryptedFile downloadedFile in
     seq (pure (base64ToArrayBuffer (d_nonce downloadedFile))) (\<lambda>nonce.
     seq (pure (base64ToArrayBuffer (d_authTag downloadedFile))) (\<lambda>authTag.
     seq (pure (dataToVerify encryptedFileBuffer nonce authTag)) (\<lambda>toVerify.
     seq (call (CallHashData toVerify) (Inr (hashData P toVerify))) (\<lambda>hash.
     seq (pure (base64ToArrayBuffer (d_signature downloadedFile))) (\<lambda>signature.
     seq (let r = verifySignature P signature hash signingKey
          in call (CallVerifySignature signature hash r) r) (\<lambda>isValid.
     if \<not> isValid
     then pure (Inl (Error verification_failed))
     else decrypt_and_save P keys downloadedFile file nonce authTag))))))))))"

definition handleDownload ::
  "platform \<Rightarrow> idb \<Rightarrow> (string \<Rightarrow> error + DownloadedFile) \<Rightarrow> InboxFile
     \<Rightarrow> outcome \<times> event list"
where
  "handleDownload P db download file =
     (case handleDownload_body P db download file [] of
        (Inl err, log) \<Rightarrow> (Failed err, log)
      | (Inr u, log) \<Rightarrow> (Success, log))"

text \<open>
  What the server hands to the receiver for an upload it relays unchanged.
\<close>

definition relayed :: "SendFilePayload \<Rightarrow> DownloadedFile" where
  "relayed p =
     \<lparr>d_encryptedFile = p_file p,
      d_encryptedAESKey = p_encryptedAESKey p,
      d_nonce = p_nonce p,
      d_authTag = p_authTag p,
      d_signature = p_signature p,
      d_senderPublicKey = p_senderPublicKey p,
      d_fileName = p_fileName p\<rparr>"

text \<open>The events of a decryption or of plaintext leaving the handler, and a passed check.\<close>

fun sensitive :: "event \<Rightarrow> bool" where
  "sensitive (CallDecryptAESKey k) = True"
| "sensitive (CallDecryptFile c n) = True"
| "sensitive (SaveFile name plaintext) = True"
| "sensitive _ = False"

fun verified :: "event \<Rightarrow> bool" where
  "verified (CallVerifySignature s h r) = (r = Inr True)"
| "verified _ = False"

fun verification :: "event \<Rightarrow> bool" where
  "verification (CallVerifySignature s h r) = True"
| "verification _ = False"

subsection \<open>The order of the calls in a log\<close>

text \<open>
  A log is guarded when no decryption and no plaintext comes before a signature check
  that returned true.
\<close>

fun guarded :: "event list \<Rightarrow> bool" where
  "guarded [] = True"
| "guarded (e # es) = (verified e \<or> (\<not> sensitive e \<and> guarded es))"

text \<open>
  A log is in order when a signature check that did not return true is the last call,
  nothing follows a check that returned true but calls other than checks, and no
  decryption and no plaintext comes before a check. The rejection of a log is the error
  of its first check that did not return true.
\<close>

fun in_order :: "event list \<Rightarrow> bool" where
  "in_order [] = True"
| "in_order (e # es) =
     (if verified e then (\<forall>e' \<in> set es. \<not> verification e')
      else if verification e then es = []
      else \<not> sensitive e \<and> in_order es)"

fun rejection :: "event list \<Rightarrow> error option" where
  "rejection [] = None"
| "rejection (CallVerifySignature s h r # es) =
     (case r of
        Inl e \<Rightarrow> Some e
      | Inr b \<Rightarrow> if b then rejection es else Some (Error verification_failed))"
| "rejection (e # es) = rejection es"

section \<open>A small platform for running the model\<close>

text \<open>
  The theorems below hold for every platform. To run the model on concrete inputs a
  platform is needed, and this is one: it has the interface of the real one and none of
  its strength. A key pair is the entropy behind two different two-byte headers, RSA-OAEP
  prefixes the message with the key it was encrypted for, a signature is the signing key
  followed by the message, AES-GCM adds a byte derived from key and nonce to every byte and
  appends a 16-byte checksum, and the hash is a length and a sum. \<open>JSON.parse\<close> reads
  \<open>null\<close> and objects whose members are strings without escapes, written without white
  space, and rejects every other text (so it agrees with the real parser on what it accepts).
\<close>

fun take_string :: "string \<Rightarrow> (string \<times> string) option" where
  "take_string [] = None"
| "take_string (c # cs) =
     (if c = CHR 0x22 then Some ([], cs)
      else if c = CHR 0x5C \<or> (of_char c :: nat) < 32 then None
      else (case take_string cs of None \<Rightarrow> None | Some (s, rest) \<Rightarrow> Some (c # s, rest)))"

definition expect :: "char \<Rightarrow> string \<Rightarrow> string option" where
  "expect c s = (case s of [] \<Rightarrow> None | x # rest \<Rightarrow> if x = c then Some rest else None)"

fun parse_members :: "nat \<Rightarrow> string \<Rightarrow> (string \<times> json) list option" where
  "parse_members 0 s = None"
| "parse_members (Suc fuel) s =
     (case expect (CHR 0x22) s of None \<Rightarrow> None | Some s1 \<Rightarrow>
      case take_string s1 of None \<Rightarrow> None | Some (name, s2) \<Rightarrow>
      case expect (CHR '':'') s2 of None \<Rightarrow> None | Some s3 \<Rightarrow>
      case expect (CHR 0x22) s3 of None \<Rightarrow> None | Some s4 \<Rightarrow>
      case take_string s4 of None \<Rightarrow> None | Some (v, s5) \<Rightarrow>
      if s5 = [CHR ''}''] then Some [(name, JString v)]
      else (case expect (CHR '','') s5 of None \<Rightarrow> None | Some s6 \<Rightarrow>
            case parse_members fuel s6 of None \<Rightarrow> None
            | Some members \<Rightarrow> Some ((name, JString v) # members)))"

definition demo_json_parse :: "string \<Rightarrow> json option" where
  "demo_json_parse s =
     (if s = ''null'' then Some JNull
      else if s = ''{}'' then Some (JObject [])
      else (case expect (CHR ''{'') s of
              None \<Rightarrow> None
            | Some rest \<Rightarrow> map_option JObject (parse_members (length s) rest)))"

definition byte_sum :: "bytes \<Rightarrow> byte" where
  "byte_sum bs = fold (+) bs 0"

definition demo_sha256 :: "bytes \<Rightarrow> bytes" where
  "demo_sha256 bs = [of_nat (length bs), byte_sum bs]"

definition demo_rsa_keygen :: "bytes \<Rightarrow> bytes \<times> bytes" where
  "demo_rsa_keygen seed = ([0x30, 1] @ seed, [0x30, 2] @ seed)"

definition demo_spki_valid :: "bytes \<Rightarrow> bool" where
  "demo_spki_valid bs = (take 2 bs = [0x30, 1])"

definition demo_pkcs8_valid :: "bytes \<Rightarrow> bool" where
  "demo_pkcs8_valid bs = (take 2 bs = [0x30, 2])"

definition demo_oaep_encrypt :: "bytes \<Rightarrow> bytes \<Rightarrow> bytes \<Rightarrow> bytes option" where
  "demo_oaep_encrypt pub seed m =
     (if 190 < length m then None
      else Some (of_nat (length (drop 2 pub)) # drop 2 pub @ m))"

definition demo_oaep_decrypt :: "bytes \<Rightarrow> bytes \<Rightarrow> bytes option" where
  "demo_oaep_decrypt priv c =
     (case c of
        [] \<Rightarrow> None
      | n # rest \<Rightarrow>
          if unat n = length (drop 2 priv) \<and> take (unat n) rest = drop 2 priv
          then Some (drop (unat n) rest) else None)"

definition demo_pss_sign :: "bytes \<Rightarrow> nat \<Rightarrow> bytes \<Rightarrow> bytes \<Rightarrow> bytes" where
  "demo_pss_sign priv saltLength salt m = drop 2 priv @ m"

definition demo_pss_verify :: "bytes \<Rightarrow> nat \<Rightarrow> bytes \<Rightarrow> bytes \<Rightarrow> bool" where
  "demo_pss_verify pub saltLength sig m = (sig = drop 2 pub @ m)"

definition demo_gcm_encrypt :: "bytes \<Rightarrow> bytes \<Rightarrow> bytes \<Rightarrow> bytes" where
  "demo_gcm_encrypt k n p =
     map (\<lambda>b. b + byte_sum (k @ n)) p @ replicate 16 (byte_sum (k @ n @ p))"

definition demo_gcm_decrypt :: "bytes \<Rightarrow> bytes \<Rightarrow> bytes \<Rightarrow> bytes option" where
  "demo_gcm_decrypt k n c =
     (if length c < 16 then None
      else
        (let p = map (\<lambda>b. b - byte_sum (k @ n)) (take (length c - 16) c)
         in if drop (length c - 16) c = replicate 16 (byte_sum (k @ n @ p))
            then Some p else None))"

definition demo_platform :: platform where
  "demo_platform =
     \<lparr>json_parse = demo_json_parse,
      sha256 = demo_sha256,
      rsa_keygen = demo_rsa_keygen,
      spki_valid = demo_spki_valid,
      pkcs8_valid = demo_pkcs8_valid,
      oaep_encrypt = demo_oaep_encrypt,
      oaep_decrypt = demo_oaep_decrypt,
      pss_sign = demo_pss_sign,
      pss_verify = demo_pss_verify,
      gcm_encrypt = demo_gcm_encrypt,
      gcm_decrypt = demo_gcm_decrypt\<rparr>"

subsection \<open>A user, a file and a transfer on the small platform\<close>

definition demo_keys :: StoredKeys where
  "demo_keys =
     \<lparr>encryptionPublicKey = ''MAEBAgM='', encryptionPrivateKey = ''MAIBAgM='',
      signingPublicKey = ''MAEEBQY='', signingPrivateKey = ''MAIEBQY=''\<rparr>"

definition demo_db :: idb where
  "demo_db = storeKeys (Inr Map.empty) demo_keys"

definition demo_rnd :: entropy where
  "demo_rnd =
     \<lparr>aes_entropy = [7, 7, 7], nonce_entropy = [9, 8, 7, 6, 5, 4, 3, 2, 1, 0, 1, 2, 3],
      oaep_seed = [], pss_salt = []\<rparr>"

definition demo_file :: SelectedFile where
  "demo_file = \<lparr>f_name = ''a.txt'', f_bytes = [104, 101, 108, 108, 111]\<rparr>"

definition demo_receiver :: ReceiverData where
  "demo_receiver =
     \<lparr>r_userId = ''u2'', r_publicKey = stringify_bundle ''MAEBAgM='' ''MAEEBQY=''\<rparr>"

definition demo_payload :: SendFilePayload where
  "demo_payload =
     \<lparr>p_receiverId = ''u2'',
      p_encryptedAESKey = ''AwECAwcHBwAAAAAAAAAAAAAAAAAAAAAAAAAAAAAAAAAAAAAA'',
      p_nonce = ''CQgHBgUEAwIBAAEC'',
      p_authTag = ''WVlZWVlZWVlZWVlZWVlZWQ=='',
      p_signature = ''BAUGIS0='',
      p_senderPublicKey = ''MAEEBQY='',
      p_file = [173, 170, 177, 177, 180],
      p_fileName = ''a.txt''\<rparr>"

definition demo_inbox :: InboxFile where
  "demo_inbox =
     \<lparr>i_fileId = ''id1'', i_fileName = ''x'', i_senderId = ''u1'', i_uploadedAt = []\<rparr>"

text \<open>
  A store in which all four entries are present and the first is the empty string, and the
  encryption public key of the user above as \<open>importPublicKey\<close> returns it.
\<close>

definition demo_blank_store :: object_store where
  "demo_blank_store =
     [''encryptionPublicKey'' \<mapsto> [], ''encryptionPrivateKey'' \<mapsto> ''MAIBAgM='',
      ''signingPublicKey'' \<mapsto> ''MAEEBQY='', ''signingPrivateKey'' \<mapsto> ''MAIEBQY='']"

definition demo_encryption_key :: CryptoKey where
  "demo_encryption_key =
     \<lparr>key_algorithm = RSA_OAEP, key_type = Public, key_extractable = True,
      key_usages = [Encrypt], key_material = [0x30, 1, 1, 2, 3]\<rparr>"

definition demo_full_store :: object_store where
  "demo_full_store =
     [''encryptionPublicKey'' \<mapsto> ''MAEBAgM='', ''encryptionPrivateKey'' \<mapsto> ''MAIBAgM='',
      ''signingPublicKey'' \<mapsto> ''MAEEBQY='', ''signingPrivateKey'' \<mapsto> ''MAIEBQY='']"




text \<open>
  The calls of three runs on the small platform: the send of the file above, the receive
  of that upload relayed unchanged, and the receive of it with the signature replaced.
\<close>

definition demo_send_log :: "event list" where
  "demo_send_log =
     [CallGetKeys, CallGenerateAESKey, CallGenerateNonce, CallEncryptFile,
      CallImportPublicKey ''MAEBAgM='', CallEncryptAESKey,
      CallHashData
        [173, 170, 177, 177, 180, 9, 8, 7, 6, 5, 4, 3, 2, 1, 0, 1, 2, 89, 89,
         89, 89, 89, 89, 89, 89, 89, 89, 89, 89, 89, 89, 89, 89],
      CallImportSigningPrivateKey, CallSignData [33, 45],
      CallSendFile demo_payload]"

definition demo_receive_log :: "event list" where
  "demo_receive_log =
     [CallGetKeys, CallDownloadFile ''id1'',
      CallImportSigningPublicKey ''MAEEBQY='',
      CallHashData
        [173, 170, 177, 177, 180, 9, 8, 7, 6, 5, 4, 3, 2, 1, 0, 1, 2, 89, 89,
         89, 89, 89, 89, 89, 89, 89, 89, 89, 89, 89, 89, 89, 89],
      CallVerifySignature [4, 5, 6, 33, 45] [33, 45] (Inr True),
      CallImportPrivateKey,
      CallDecryptAESKey
        [3, 1, 2, 3, 7, 7, 7, 0, 0, 0, 0, 0, 0, 0, 0, 0, 0, 0, 0, 0, 0, 0, 0, 0,
         0, 0, 0, 0, 0, 0, 0, 0, 0, 0, 0, 0],
      CallDecryptFile
        [173, 170, 177, 177, 180, 89, 89, 89, 89, 89, 89, 89, 89, 89, 89, 89,
         89, 89, 89, 89, 89]
        [9, 8, 7, 6, 5, 4, 3, 2, 1, 0, 1, 2],
      SaveFile ''a.txt'' [104, 101, 108, 108, 111]]"

definition demo_forged :: DownloadedFile where
  "demo_forged = (relayed demo_payload)\<lparr>d_signature := ''AAAA''\<rparr>"

definition demo_forged_log :: "event list" where
  "demo_forged_log =
     [CallGetKeys, CallDownloadFile ''id1'',
      CallImportSigningPublicKey ''MAEEBQY='',
      CallHashData
        [173, 170, 177, 177, 180, 9, 8, 7, 6, 5, 4, 3, 2, 1, 0, 1, 2, 89, 89,
         89, 89, 89, 89, 89, 89, 89, 89, 89, 89, 89, 89, 89, 89],
      CallVerifySignature [0, 0, 0] [33, 45] (Inr False)]"

section \<open>Base64 round trip\<close>

lemma a2b_loop_eq: "a2b_loop bs i acc = acc @ map fromCharCode (drop i bs)"
proof (induction bs i acc rule: a2b_loop.induct)
  case (1 bs i binary)
  show ?case
  proof (cases "i < length bs")
    case True
    then have "drop i bs = bs ! i # drop (Suc i) bs"
      by (simp add: Cons_nth_drop_Suc)
    with True 1 show ?thesis by (subst a2b_loop.simps) simp
  next
    case False
    then show ?thesis by (subst a2b_loop.simps) simp
  qed
qed

lemma b2a_loop_eq:
  "length bs = length binary \<Longrightarrow> i \<le> length binary \<Longrightarrow>
   b2a_loop binary i bs = take i bs @ map charCode (drop i binary)"
proof (induction binary i bs rule: b2a_loop.induct)
  case (1 binary i bs)
  show ?case
  proof (cases "i < length binary")
    case True
    have d: "drop i binary = binary ! i # drop (Suc i) binary"
      using True by (simp add: Cons_nth_drop_Suc)
    have "b2a_loop binary i bs = b2a_loop binary (Suc i) (bs[i := charCode (binary ! i)])"
      using True by (subst b2a_loop.simps) simp
    also have "\<dots> = take (Suc i) (bs[i := charCode (binary ! i)]) @ map charCode (drop (Suc i) binary)"
      using 1 True by simp
    also have "take (Suc i) (bs[i := charCode (binary ! i)]) = take i bs @ [charCode (binary ! i)]"
      using True 1(2) by (simp add: take_Suc_conv_app_nth)
    finally show ?thesis using d by simp
  next
    case False
    with 1 show ?thesis by (subst b2a_loop.simps) simp
  qed
qed

lemma charCode_fromCharCode: "charCode (fromCharCode b) = b"
proof -
  have "unat b < 256" using unsigned_less [of b] by simp
  then show ?thesis by (simp add: charCode_def fromCharCode_def)
qed

lemma b64_index_char: "i < 64 \<Longrightarrow> b64_index (b64_char i) = Some i"
  by (auto simp: b64_index_def b64_char_def Let_def)

lemma b64_char_not_pad: "b64_char i \<noteq> CHR ''=''"
proof -
  have "(of_char (b64_char i) :: nat) \<noteq> of_char (CHR ''='')"
    by (auto simp: b64_char_def)
  then show ?thesis by auto
qed

lemma b64_char_not_ws: "\<not> ascii_whitespace (b64_char i)"
  by (auto simp: b64_char_def ascii_whitespace_def)

lemma pad_not_ws: "\<not> ascii_whitespace (CHR ''='')"
  by (simp add: ascii_whitespace_def)

lemma filter_b64_encode:
  "filter (\<lambda>c. \<not> ascii_whitespace c) (b64_encode xs) = b64_encode xs"
  by (induction xs rule: b64_encode.induct) (simp_all add: b64_char_not_ws pad_not_ws)

lemma length_b64_encode: "length (b64_encode xs) mod 4 = 0"
  by (induction xs rule: b64_encode.induct) simp_all

lemma strip_padding_append:
  "2 \<le> length e \<Longrightarrow> strip_padding (p @ e) = p @ strip_padding e"
proof -
  assume a: "2 \<le> length e"
  then have e: "e \<noteq> []" and b: "butlast e \<noteq> []"
    by (auto simp: butlast_conv_take)
  show ?thesis
    using a e b by (simp add: strip_padding_def butlast_append)
qed

lemma b64_encode_length2: "xs \<noteq> [] \<Longrightarrow> 2 \<le> length (b64_encode xs)"
  by (induction xs rule: b64_encode.induct) simp_all

lemma strip_b64_encode: "strip_padding (b64_encode xs) = b64_core xs"
proof (induction xs rule: b64_encode.induct)
  case (1 a b c rest)
  show ?case
  proof (cases "rest = []")
    case True
    then show ?thesis by (simp add: strip_padding_def b64_char_not_pad)
  next
    case False
    then have "2 \<le> length (b64_encode rest)" by (rule b64_encode_length2)
    then show ?thesis
      using 1 strip_padding_append [of "b64_encode rest"] 
      by (simp del: append.simps add: strip_padding_append)
  qed
qed (simp_all add: strip_padding_def b64_char_not_pad)

lemma length_b64_core: "length (b64_core xs) mod 4 \<noteq> 1"
  by (induction xs rule: b64_core.induct) simp_all

lemma sextets_Cons_char:
  "i < 64 \<Longrightarrow> sextets (b64_char i # cs) = map_option ((#) i) (sextets cs)"
  by (cases "sextets cs") (simp_all add: b64_index_char)

lemma split16: "r < 16 \<Longrightarrow> (q * 16 + r) div 16 = (q::nat)" "r < 16 \<Longrightarrow> (q * 16 + r) mod 16 = (r::nat)"
  by simp_all

lemma split4: "r < 4 \<Longrightarrow> (q * 4 + r) div 4 = (q::nat)" "r < 4 \<Longrightarrow> (q * 4 + r) mod 4 = (r::nat)"
  by simp_all

lemma b64_group3:
  fixes a b c :: nat
  assumes "b < 256" "c < 256"
  shows "a div 4 * 4 + ((a mod 4) * 16 + b div 16) div 16 = a"
    "(((a mod 4) * 16 + b div 16) mod 16) * 16 + ((b mod 16) * 4 + c div 64) div 4 = b"
    "(((b mod 16) * 4 + c div 64) mod 4) * 64 + c mod 64 = c"
proof -
  have b16: "b div 16 < 16" and c64: "c div 64 < 4" using assms by auto
  show "a div 4 * 4 + ((a mod 4) * 16 + b div 16) div 16 = a"
    using b16 by (simp add: split16)
  show "(((a mod 4) * 16 + b div 16) mod 16) * 16 + ((b mod 16) * 4 + c div 64) div 4 = b"
    using b16 c64 by (simp add: split16 split4)
  show "(((b mod 16) * 4 + c div 64) mod 4) * 64 + c mod 64 = c"
    using c64 by (simp add: split4)
qed

lemma b64_group_lt:
  fixes a b c :: nat
  assumes "a < 256" "b < 256" "c < 256"
  shows "a div 4 < 64" "(a mod 4) * 16 + b div 16 < 64" "(b mod 16) * 4 + c div 64 < 64"
    "c mod 64 < 64" "(a mod 4) * 16 < 64" "(b mod 16) * 4 < 64"
  using assms by auto

lemma decode_group3:
  fixes a b c :: nat
  assumes "a < 256" "b < 256" "c < 256"
  shows "b64_decode (a div 4 # ((a mod 4) * 16 + b div 16) # ((b mod 16) * 4 + c div 64) # c mod 64 # ss)
         = a # b # c # b64_decode ss"
  using assms by (simp add: b64_group3)

lemma decode_group2:
  fixes a b :: nat
  assumes "a < 256" "b < 256"
  shows "b64_decode [a div 4, (a mod 4) * 16 + b div 16, (b mod 16) * 4] = [a, b]"
  using assms b64_group3(1) [of b 0 a] b64_group3(2) [of b 0 a] by simp

lemma decode_group1:
  fixes a :: nat
  shows "b64_decode [a div 4, (a mod 4) * 16] = [a]"
  by simp

lemma sextets_core:
  "\<forall>x\<in>set xs. x < 256 \<Longrightarrow> \<exists>ss. sextets (b64_core xs) = Some ss \<and> b64_decode ss = xs"
proof (induction xs rule: b64_core.induct)
  case (1 a b c rest)
  then obtain ss where ss: "sextets (b64_core rest) = Some ss" "b64_decode ss = rest"
    by auto
  have lt: "a < 256" "b < 256" "c < 256" using 1(2) by auto
  note i = b64_group_lt [OF lt]
  have "sextets (b64_core (a # b # c # rest)) =
     Some (a div 4 # ((a mod 4) * 16 + b div 16) # ((b mod 16) * 4 + c div 64) # c mod 64 # ss)"
    using ss(1) by (simp add: sextets_Cons_char i(1-4) del: sextets.simps)
  then show ?case using decode_group3 [OF lt] ss(2) by blast
next
  case (2 a b)
  have lt: "a < 256" "b < 256" using 2 by auto
  note i = b64_group_lt [OF lt lt(2)]
  have "sextets (b64_core [a, b]) = Some [a div 4, (a mod 4) * 16 + b div 16, (b mod 16) * 4]"
    by (simp add: sextets_Cons_char i(1,2,6) del: sextets.simps(2))
  then show ?case using decode_group2 [OF lt] by blast
next
  case (3 a)
  have lt: "a < 256" using 3 by auto
  note i = b64_group_lt [OF lt lt lt]
  have "sextets (b64_core [a]) = Some [a div 4, (a mod 4) * 16]"
    by (simp add: sextets_Cons_char i(1,5) del: sextets.simps(2))
  then show ?case using decode_group1 by blast
next
  case 4
  show ?case by simp
qed

lemma atob_b64_encode:
  assumes "\<forall>x\<in>set xs. x < 256"
  shows "atob (b64_encode xs) = Inr (map char_of xs)"
proof -
  obtain ss where ss: "sextets (b64_core xs) = Some ss" "b64_decode ss = xs"
    using sextets_core [OF assms] by auto
  show ?thesis
    using ss length_b64_core [of xs]
    by (simp add: atob_def filter_b64_encode length_b64_encode strip_b64_encode)
qed

lemma atob_btoa: "atob (btoa binary) = Inr binary"
proof -
  have "\<forall>x\<in>set (map of_char binary :: nat list). x < 256" by auto
  from atob_b64_encode [OF this] have "atob (btoa binary) = Inr (map char_of (map of_char binary :: nat list))"
    by (simp only: btoa_def)
  also have "map char_of (map of_char binary :: nat list) = binary"
    by (induction binary) simp_all
  finally show ?thesis .
qed

lemma a2b_loop_0: "a2b_loop b 0 [] = map fromCharCode b"
  by (simp only: a2b_loop_eq drop_0 append_Nil)

lemma b2a_loop_0: "b2a_loop binary 0 (replicate (length binary) 0) = map charCode binary"
  using b2a_loop_eq [of "replicate (length binary) 0" binary 0]
  by simp

lemma base64_decode_encode: "base64ToArrayBuffer (arrayBufferToBase64 b) = Inr b"
proof -
  have m: "map charCode (map fromCharCode b) = b"
    by (induction b) (simp_all add: charCode_fromCharCode)
  have "base64ToArrayBuffer (arrayBufferToBase64 b) =
        Inr (b2a_loop (map fromCharCode b) 0 (replicate (length (map fromCharCode b)) 0))"
    unfolding base64ToArrayBuffer_def arrayBufferToBase64_def a2b_loop_0 atob_btoa
    by (simp only: sum.case)
  also have "\<dots> = Inr b"
    by (simp only: b2a_loop_0 m)
  finally show ?thesis .
qed

section \<open>Typed arrays\<close>








section \<open>What a run of a handler has done\<close>

lemmas handler_defs = seq_def call_def pure_def Let_def

lemma handleSend_sent:
  assumes "CallSendFile p \<in> set (snd (handleSend P db send rnd sf rd))"
  shows "\<exists>file receiver keys aesKey enc rek rpk eak toSign sk sig.
     sf = Some file \<and> rd = Some receiver \<and> getKeys db = Inr (Some keys)
     \<and> generateAESKey (aes_entropy rnd) = Inr aesKey
     \<and> encryptFile P (f_bytes file) aesKey (generateNonce (nonce_entropy rnd)) = Inr enc
     \<and> parseReceiverKey P (r_publicKey receiver) = Inr rek
     \<and> importPublicKey P (to_string rek) = Inr rpk
     \<and> encryptAESKey P aesKey rpk (oaep_seed rnd) = Inr eak
     \<and> dataToSign (split_ciphertext enc) (generateNonce (nonce_entropy rnd))
          (split_authTag enc) = Inr toSign
     \<and> importSigningPrivateKey P (signingPrivateKey keys) = Inr sk
     \<and> signData P (hashData P toSign) sk (pss_salt rnd) = Inr sig
     \<and> CallHashData toSign \<in> set (snd (handleSend P db send rnd sf rd))
     \<and> CallSignData (hashData P toSign) \<in> set (snd (handleSend P db send rnd sf rd))
     \<and> p = \<lparr>p_receiverId = r_userId receiver,
            p_encryptedAESKey = arrayBufferToBase64 eak,
            p_nonce = arrayBufferToBase64 (generateNonce (nonce_entropy rnd)),
            p_authTag = arrayBufferToBase64 (split_authTag enc),
            p_signature = arrayBufferToBase64 sig,
            p_senderPublicKey = signingPublicKey keys,
            p_file = split_ciphertext enc,
            p_fileName = f_name file\<rparr>"
  using assms
  by (auto simp: handleSend_def handleSend_body_def handler_defs
      split: option.splits sum.splits prod.splits if_splits)

lemma handleSend_success:
  assumes "fst (handleSend P db send rnd sf rd) = Success"
  shows "\<exists>p. CallSendFile p \<in> set (snd (handleSend P db send rnd sf rd)) \<and> (\<exists>r. send p = Inr r)"
  using assms
  by (auto simp: handleSend_def handleSend_body_def handler_defs
      split: option.splits sum.splits prod.splits if_splits)



lemma handleDownload_guarded: "guarded (snd (handleDownload P db download file))"
  by (auto simp: handleDownload_def handleDownload_body_def decrypt_and_save_def handler_defs
      split: option.splits sum.splits prod.splits if_splits)


lemma handleSend_sender_key:
  assumes "CallSendFile p \<in> set (snd (handleSend P db send rnd sf rd))"
  shows "\<exists>keys. getKeys db = Inr (Some keys) \<and> p_senderPublicKey p = signingPublicKey keys"
  using handleSend_sent [OF assms]
  by (elim exE conjE) auto



lemma guarded_nth:
  "guarded log \<Longrightarrow> i < length log \<Longrightarrow> sensitive (log ! i) \<Longrightarrow> \<exists>j<i. verified (log ! j)"
proof (induction log arbitrary: i)
  case Nil
  then show ?case by simp
next
  case (Cons e es)
  show ?case
  proof (cases i)
    case 0
    with Cons.prems have "sensitive e" "verified e \<or> \<not> sensitive e" by auto
    then have False by (cases e) auto
    then show ?thesis ..
  next
    case (Suc i')
    show ?thesis
    proof (cases "verified e")
      case True
      then have "0 < i \<and> verified ((e # es) ! 0)" using Suc by simp
      then show ?thesis by blast
    next
      case False
      with Cons.prems Suc have "guarded es" "i' < length es" "sensitive (es ! i')" by auto
      from Cons.IH [OF this] obtain j where "j < i'" "verified (es ! j)" by blast
      then have "Suc j < i \<and> verified ((e # es) ! Suc j)" using Suc by simp
      then show ?thesis by blast
    qed
  qed
qed

lemma quote_char_nonempty: "1 \<le> length (quote_char c)"
  by (simp add: quote_char_def Let_def)

lemma length_concat_quote: "length s \<le> length (concat (map quote_char s))"
proof (induction s)
  case Nil
  then show ?case by simp
next
  case (Cons c s)
  then show ?case using quote_char_nonempty [of c] by simp
qed

lemma bundle_longer: "length s < length (stringify_bundle e s)"
  using length_concat_quote [of s]
  by (simp add: stringify_bundle_def quote_json_string_def)

lemma handleDownload_in_order:
  "in_order (snd (handleDownload P db download file))
   \<and> (case rejection (snd (handleDownload P db download file)) of
         None \<Rightarrow> True
       | Some e \<Rightarrow> fst (handleDownload P db download file) = Failed e)"
  by (auto simp: handleDownload_def handleDownload_body_def decrypt_and_save_def handler_defs
      split: option.splits sum.splits prod.splits if_splits)

lemma in_order_rejected:
  "in_order log \<Longrightarrow> CallVerifySignature s h r \<in> set log \<Longrightarrow> r \<noteq> Inr True \<Longrightarrow>
   (\<forall>e \<in> set log. \<not> sensitive e)
   \<and> rejection log = Some (case r of Inl e \<Rightarrow> e | Inr b \<Rightarrow> Error verification_failed)"
proof (induction log)
  case Nil
  then show ?case by simp
next
  case (Cons e es)
  show ?case
  proof (cases "verification e")
    case True
    then obtain s' h' r' where e: "e = CallVerifySignature s' h' r'"
      by (cases e) auto
    show ?thesis
    proof (cases "r' = Inr True")
      case True
      with Cons.prems e have "\<forall>e' \<in> set es. \<not> verification e'" by simp
      with Cons.prems e True show ?thesis by auto
    next
      case False
      with Cons.prems e have "es = []" by simp
      with Cons.prems e False show ?thesis
        by (cases r') auto
    qed
  next
    case False
    with Cons.prems have "\<not> sensitive e" "in_order es" "CallVerifySignature s h r \<in> set es"
      by (auto split: if_splits)
    with Cons.IH Cons.prems(3) False show ?thesis
      by (cases e) auto
  qed
qed

lemma handleDownload_rejected:
  assumes "CallVerifySignature s h r \<in> set (snd (handleDownload P db download file))"
    and "r \<noteq> Inr True"
  shows "(\<forall>e \<in> set (snd (handleDownload P db download file)). \<not> sensitive e)
    \<and> fst (handleDownload P db download file) =
        Failed (case r of Inl e \<Rightarrow> e | Inr b \<Rightarrow> Error verification_failed)"
proof -
  note o = handleDownload_in_order [of P db download "file"]
  from in_order_rejected [OF o [THEN conjunct1] assms]
  have c: "\<forall>e \<in> set (snd (handleDownload P db download file)). \<not> sensitive e"
    and r: "rejection (snd (handleDownload P db download file)) =
       Some (case r of Inl e \<Rightarrow> e | Inr b \<Rightarrow> Error verification_failed)"
    by blast+
  from o [THEN conjunct2] r
  have "fst (handleDownload P db download file) =
        Failed (case r of Inl e \<Rightarrow> e | Inr b \<Rightarrow> Error verification_failed)"
    by simp
  with c show ?thesis by blast
qed

section \<open>The key store\<close>

lemma getKeys_store:
  "getKeys (Inr store) =
     Inr (if truthy (store ''encryptionPublicKey'') \<and> truthy (store ''encryptionPrivateKey'')
             \<and> truthy (store ''signingPublicKey'') \<and> truthy (store ''signingPrivateKey'')
          then Some \<lparr>encryptionPublicKey = the (store ''encryptionPublicKey''),
                     encryptionPrivateKey = the (store ''encryptionPrivateKey''),
                     signingPublicKey = the (store ''signingPublicKey''),
                     signingPrivateKey = the (store ''signingPrivateKey'')\<rparr>
          else None)"
  by (simp add: getKeys_def bind_def Let_def)

section \<open>The wrappers of crypto.ts\<close>

lemmas import_defs = importPublicKey_def importPrivateKey_def importSigningPublicKey_def
  importSigningPrivateKey_def subtle_importKey_def bind_def



lemma generateKeyPair_eq:
  "generateKeyPair P ent =
     Inr \<lparr>publicKey =
            \<lparr>key_algorithm = RSA_OAEP, key_type = Public, key_extractable = True,
             key_usages = [Encrypt], key_material = fst (rsa_keygen P ent)\<rparr>,
          privateKey =
            \<lparr>key_algorithm = RSA_OAEP, key_type = Private, key_extractable = True,
             key_usages = [Decrypt], key_material = snd (rsa_keygen P ent)\<rparr>\<rparr>"
  by (simp add: generateKeyPair_def subtle_generateKey_rsa_def split: prod.splits)

lemma generateSigningKeyPair_eq:
  "generateSigningKeyPair P ent =
     Inr \<lparr>publicKey =
            \<lparr>key_algorithm = RSA_PSS, key_type = Public, key_extractable = True,
             key_usages = [Verify], key_material = fst (rsa_keygen P ent)\<rparr>,
          privateKey =
            \<lparr>key_algorithm = RSA_PSS, key_type = Private, key_extractable = True,
             key_usages = [Sign], key_material = snd (rsa_keygen P ent)\<rparr>\<rparr>"
  by (simp add: generateSigningKeyPair_def subtle_generateKey_rsa_def split: prod.splits)

lemma export_import_public:
  assumes "key_algorithm key \<in> {RSA_OAEP, RSA_PSS}" "key_type key = Public"
    "key_extractable key" "spki_valid P (key_material key)"
  shows "\<exists>pubText. exportPublicKey key = Inr pubText
     \<and> importPublicKey P pubText =
         Inr \<lparr>key_algorithm = RSA_OAEP, key_type = Public, key_extractable = True,
              key_usages = [Encrypt], key_material = key_material key\<rparr>
     \<and> importSigningPublicKey P pubText =
         Inr \<lparr>key_algorithm = RSA_PSS, key_type = Public, key_extractable = True,
              key_usages = [Verify], key_material = key_material key\<rparr>"
  using assms
  by (auto simp: exportPublicKey_def subtle_exportKey_def import_defs base64_decode_encode)

lemma export_import_private:
  assumes "key_algorithm key \<in> {RSA_OAEP, RSA_PSS}" "key_type key = Private"
    "key_extractable key" "pkcs8_valid P (key_material key)"
  shows "\<exists>privText. exportPrivateKey key = Inr privText
     \<and> importPrivateKey P privText =
         Inr \<lparr>key_algorithm = RSA_OAEP, key_type = Private, key_extractable = True,
              key_usages = [Decrypt], key_material = key_material key\<rparr>
     \<and> importSigningPrivateKey P privText =
         Inr \<lparr>key_algorithm = RSA_PSS, key_type = Private, key_extractable = True,
              key_usages = [Sign], key_material = key_material key\<rparr>"
  using assms
  by (auto simp: exportPrivateKey_def subtle_exportKey_def import_defs base64_decode_encode)

lemma import_errors:
  "importPublicKey P t = Inl e \<or> importPrivateKey P t = Inl e
   \<or> importSigningPublicKey P t = Inl e \<or> importSigningPrivateKey P t = Inl e
   \<Longrightarrow> e = InvalidCharacterError \<or> e = DataError"
  by (auto simp: import_defs base64ToArrayBuffer_def atob_def Let_def
      split: sum.splits if_splits option.splits)




section \<open>Three runs on the small platform\<close>

lemma demo_send_run:
  "handleSend demo_platform demo_db (\<lambda>p. Inr ''id1'') demo_rnd
     (Some demo_file) (Some demo_receiver) = (Success, demo_send_log)"
  by code_simp

lemma demo_receive_run:
  "handleDownload demo_platform demo_db (\<lambda>i. Inr (relayed demo_payload)) demo_inbox
     = (Success, demo_receive_log)"
  by code_simp

lemma demo_forged_run:
  "handleDownload demo_platform demo_db (\<lambda>i. Inr demo_forged) demo_inbox
     = (Failed (Error verification_failed), demo_forged_log)"
  by code_simp

lemma demo_getKeys: "getKeys demo_db = Inr (Some demo_keys)"
  by code_simp

section \<open>The claims\<close>

text \<open>
  C1. In every receive operation the signature is verified, and found valid, before any
  decryption: in the log of the calls of \<open>handleDownload\<close>, every call of
  \<open>decryptAESKey\<close> or \<open>decryptFile\<close> and every save of plaintext comes after a call of
  \<open>verifySignature\<close> that returned true. If \<open>verifySignature\<close> returns false, or throws,
  neither \<open>decryptAESKey\<close> nor \<open>decryptFile\<close> is called, no plaintext is saved, and the
  operation ends in the error state, with the message of the failed verification when the
  result was false.
\<close>

theorem verify_before_decrypt:
  assumes "handleDownload P db download file = (out, log)"
  shows "(\<forall>i < length log. sensitive (log ! i) \<longrightarrow> (\<exists>j < i. verified (log ! j)))
    \<and> (\<forall>s h r. CallVerifySignature s h r \<in> set log \<and> r \<noteq> Inr True \<longrightarrow>
          (\<forall>e \<in> set log. \<not> sensitive e)
          \<and> out = Failed (case r of
                  Inl e \<Rightarrow> e
                | Inr b \<Rightarrow> Error verification_failed))"
proof (rule conjI; intro allI impI)
  fix i
  assume "i < length log" "sensitive (log ! i)"
  moreover have "guarded log"
    using handleDownload_guarded [of P db download "file"] assms by simp
  ultimately show "\<exists>j < i. verified (log ! j)"
    using guarded_nth by blast
next
  fix s h r
  assume "CallVerifySignature s h r \<in> set log \<and> r \<noteq> Inr True"
  then have "CallVerifySignature s h r \<in> set (snd (handleDownload P db download file))"
    and "r \<noteq> Inr True"
    using assms by simp_all
  from handleDownload_rejected [OF this] assms
  show "(\<forall>e \<in> set log. \<not> sensitive e)
          \<and> out = Failed (case r of
                  Inl e \<Rightarrow> e
                | Inr b \<Rightarrow> Error verification_failed)"
    by simp
qed

theorem verify_before_decrypt_witness:
  "handleDownload demo_platform demo_db (\<lambda>i. Inr (relayed demo_payload)) demo_inbox
     = (Success, demo_receive_log)
   \<and> sensitive (demo_receive_log ! 6) \<and> (\<exists>j < 6. verified (demo_receive_log ! j))
   \<and> handleDownload demo_platform demo_db (\<lambda>i. Inr demo_forged) demo_inbox
     = (Failed (Error verification_failed), demo_forged_log)
   \<and> CallVerifySignature [0, 0, 0] [33, 45] (Inr False) \<in> set demo_forged_log
   \<and> filter sensitive demo_forged_log = []"
proof -
  have s: "6 < length demo_receive_log" "sensitive (demo_receive_log ! 6)"
    by (simp_all add: demo_receive_log_def)
  from verify_before_decrypt [OF demo_receive_run, THEN conjunct1, rule_format, OF s]
  have 1: "\<exists>j < 6. verified (demo_receive_log ! j)" .
  have m: "CallVerifySignature [0, 0, 0] [33, 45] (Inr False) \<in> set demo_forged_log
      \<and> Inr False \<noteq> (Inr True :: error + bool)"
    by (simp add: demo_forged_log_def)
  from verify_before_decrypt [OF demo_forged_run, THEN conjunct2, rule_format, OF m]
  have 2: "filter sensitive demo_forged_log = []"
    by (simp add: filter_empty_conv)
  from demo_receive_run demo_forged_run s 1 m 2 show ?thesis by blast
qed



text \<open>
  C3, as amended. The upload carries, in its field \<open>senderPublicKey\<close>, the sender's stored
  signing public key and nothing else: for every send that reaches the upload, and so for
  every successful send, the field is the string \<open>signingPublicKey\<close> of the local keys. It
  is never the JSON key bundle of the two public keys that registration uploads, whatever
  the encryption key.
\<close>

theorem upload_carries_signing_key:
  "(fst (handleSend P db send rnd sf rd) = Success \<longrightarrow>
      (\<exists>p. CallSendFile p \<in> set (snd (handleSend P db send rnd sf rd))))
   \<and> (CallSendFile p \<in> set (snd (handleSend P db send rnd sf rd)) \<longrightarrow>
      (\<exists>keys. getKeys db = Inr (Some keys)
         \<and> p_senderPublicKey p = signingPublicKey keys
         \<and> (\<forall>e. p_senderPublicKey p \<noteq> stringify_bundle e (signingPublicKey keys))))"
proof (intro conjI impI)
  assume "fst (handleSend P db send rnd sf rd) = Success"
  from handleSend_success [OF this]
  show "\<exists>p. CallSendFile p \<in> set (snd (handleSend P db send rnd sf rd))"
    by blast
next
  assume "CallSendFile p \<in> set (snd (handleSend P db send rnd sf rd))"
  from handleSend_sender_key [OF this] obtain keys where
    k: "getKeys db = Inr (Some keys)" "p_senderPublicKey p = signingPublicKey keys"
    by blast
  have "signingPublicKey keys \<noteq> stringify_bundle e (signingPublicKey keys)" for e
    using bundle_longer [of "signingPublicKey keys" e] by auto
  with k show "\<exists>keys. getKeys db = Inr (Some keys)
         \<and> p_senderPublicKey p = signingPublicKey keys
         \<and> (\<forall>e. p_senderPublicKey p \<noteq> stringify_bundle e (signingPublicKey keys))"
    by auto
qed

theorem upload_carries_signing_key_witness:
  "fst (handleSend demo_platform demo_db (\<lambda>p. Inr ''id1'') demo_rnd
          (Some demo_file) (Some demo_receiver)) = Success
   \<and> CallSendFile demo_payload
       \<in> set (snd (handleSend demo_platform demo_db (\<lambda>p. Inr ''id1'') demo_rnd
                     (Some demo_file) (Some demo_receiver)))
   \<and> (\<exists>keys. getKeys demo_db = Inr (Some keys)
        \<and> p_senderPublicKey demo_payload = signingPublicKey keys)"
proof -
  have ok: "fst (handleSend demo_platform demo_db (\<lambda>p. Inr ''id1'') demo_rnd
          (Some demo_file) (Some demo_receiver)) = Success"
    by (simp add: demo_send_run)
  have sent: "CallSendFile demo_payload
     \<in> set (snd (handleSend demo_platform demo_db (\<lambda>p. Inr ''id1'') demo_rnd
                   (Some demo_file) (Some demo_receiver)))"
    by (simp add: demo_send_run demo_send_log_def)
  from upload_carries_signing_key
         [of demo_platform demo_db "\<lambda>p. Inr ''id1''" demo_rnd
             "Some demo_file" "Some demo_receiver" demo_payload] sent
  have "\<exists>keys. getKeys demo_db = Inr (Some keys)
        \<and> p_senderPublicKey demo_payload = signingPublicKey keys"
    by blast
  with ok sent show ?thesis by blast
qed

text \<open>
  C3 as stated fails: a send succeeds, and the field \<open>senderPublicKey\<close> of its upload is
  the signing key alone, not the bundle of the sender's two public keys.
\<close>

theorem upload_carries_bundle_counterexample:
  "fst (handleSend demo_platform demo_db (\<lambda>p. Inr ''id1'') demo_rnd
          (Some demo_file) (Some demo_receiver)) = Success
   \<and> CallSendFile demo_payload
       \<in> set (snd (handleSend demo_platform demo_db (\<lambda>p. Inr ''id1'') demo_rnd
                     (Some demo_file) (Some demo_receiver)))
   \<and> getKeys demo_db = Inr (Some demo_keys)
   \<and> p_senderPublicKey demo_payload = ''MAEEBQY=''
   \<and> p_senderPublicKey demo_payload
       \<noteq> stringify_bundle (encryptionPublicKey demo_keys) (signingPublicKey demo_keys)"
proof -
  have "p_senderPublicKey demo_payload = signingPublicKey demo_keys"
    by (simp add: demo_payload_def demo_keys_def)
  then have "p_senderPublicKey demo_payload
       \<noteq> stringify_bundle (encryptionPublicKey demo_keys) (signingPublicKey demo_keys)"
    using bundle_longer [of "signingPublicKey demo_keys" "encryptionPublicKey demo_keys"]
    by auto
  then show ?thesis
    by (simp add: demo_send_run demo_send_log_def demo_getKeys) (simp add: demo_payload_def)
qed










text \<open>
  C8, as amended. An import function gives the key its purpose; it does not check the
  purpose the key was generated for, and the exported encoding does not carry one. For
  every key pair generated for encryption whose encodings the platform parses, the exported
  public key imports with \<open>importSigningPublicKey\<close> as an RSA-PSS key with the usage
  \<open>verify\<close>, and the exported private key imports with \<open>importSigningPrivateKey\<close> as an
  RSA-PSS key with the usage \<open>sign\<close>, both with the key material unchanged; likewise a
  pair generated for signing imports with \<open>importPublicKey\<close> and \<open>importPrivateKey\<close> as
  RSA-OAEP keys. An import throws only \<open>InvalidCharacterError\<close> (the text is not base64)
  or \<open>DataError\<close> (the bytes do not parse as a key).
\<close>

theorem import_assigns_the_purpose:
  assumes "spki_valid P (fst (rsa_keygen P ent))" and "pkcs8_valid P (snd (rsa_keygen P ent))"
  shows
    "(\<exists>pair pubText privText.
        generateKeyPair P ent = Inr pair
        \<and> exportPublicKey (publicKey pair) = Inr pubText
        \<and> exportPrivateKey (privateKey pair) = Inr privText
        \<and> importSigningPublicKey P pubText =
            Inr \<lparr>key_algorithm = RSA_PSS, key_type = Public, key_extractable = True,
                 key_usages = [Verify], key_material = key_material (publicKey pair)\<rparr>
        \<and> importSigningPrivateKey P privText =
            Inr \<lparr>key_algorithm = RSA_PSS, key_type = Private, key_extractable = True,
                 key_usages = [Sign], key_material = key_material (privateKey pair)\<rparr>)
     \<and> (\<exists>pair pubText privText.
        generateSigningKeyPair P ent = Inr pair
        \<and> exportPublicKey (publicKey pair) = Inr pubText
        \<and> exportPrivateKey (privateKey pair) = Inr privText
        \<and> importPublicKey P pubText =
            Inr \<lparr>key_algorithm = RSA_OAEP, key_type = Public, key_extractable = True,
                 key_usages = [Encrypt], key_material = key_material (publicKey pair)\<rparr>
        \<and> importPrivateKey P privText =
            Inr \<lparr>key_algorithm = RSA_OAEP, key_type = Private, key_extractable = True,
                 key_usages = [Decrypt], key_material = key_material (privateKey pair)\<rparr>)
     \<and> (\<forall>t e. importPublicKey P t = Inl e \<or> importPrivateKey P t = Inl e
               \<or> importSigningPublicKey P t = Inl e \<or> importSigningPrivateKey P t = Inl e
           \<longrightarrow> e = InvalidCharacterError \<or> e = DataError)"
proof (intro conjI allI impI)
  let ?pub = "\<lambda>alg us. \<lparr>key_algorithm = alg, key_type = Public, key_extractable = True,
             key_usages = us, key_material = fst (rsa_keygen P ent)\<rparr>"
  let ?priv = "\<lambda>alg us. \<lparr>key_algorithm = alg, key_type = Private, key_extractable = True,
             key_usages = us, key_material = snd (rsa_keygen P ent)\<rparr>"
  from export_import_public [of "?pub RSA_OAEP [Encrypt]" P]
       export_import_private [of "?priv RSA_OAEP [Decrypt]" P] assms
  show "\<exists>pair pubText privText.
        generateKeyPair P ent = Inr pair
        \<and> exportPublicKey (publicKey pair) = Inr pubText
        \<and> exportPrivateKey (privateKey pair) = Inr privText
        \<and> importSigningPublicKey P pubText =
            Inr \<lparr>key_algorithm = RSA_PSS, key_type = Public, key_extractable = True,
                 key_usages = [Verify], key_material = key_material (publicKey pair)\<rparr>
        \<and> importSigningPrivateKey P privText =
            Inr \<lparr>key_algorithm = RSA_PSS, key_type = Private, key_extractable = True,
                 key_usages = [Sign], key_material = key_material (privateKey pair)\<rparr>"
    by (auto simp: generateKeyPair_eq)
  from export_import_public [of "?pub RSA_PSS [Verify]" P]
       export_import_private [of "?priv RSA_PSS [Sign]" P] assms
  show "\<exists>pair pubText privText.
        generateSigningKeyPair P ent = Inr pair
        \<and> exportPublicKey (publicKey pair) = Inr pubText
        \<and> exportPrivateKey (privateKey pair) = Inr privText
        \<and> importPublicKey P pubText =
            Inr \<lparr>key_algorithm = RSA_OAEP, key_type = Public, key_extractable = True,
                 key_usages = [Encrypt], key_material = key_material (publicKey pair)\<rparr>
        \<and> importPrivateKey P privText =
            Inr \<lparr>key_algorithm = RSA_OAEP, key_type = Private, key_extractable = True,
                 key_usages = [Decrypt], key_material = key_material (privateKey pair)\<rparr>"
    by (auto simp: generateSigningKeyPair_eq)
next
  fix t e
  assume "importPublicKey P t = Inl e \<or> importPrivateKey P t = Inl e
               \<or> importSigningPublicKey P t = Inl e \<or> importSigningPrivateKey P t = Inl e"
  then show "e = InvalidCharacterError \<or> e = DataError"
    by (rule import_errors)
qed

theorem import_assigns_the_purpose_witness:
  "spki_valid demo_platform (fst (rsa_keygen demo_platform [1, 2, 3]))
   \<and> pkcs8_valid demo_platform (snd (rsa_keygen demo_platform [1, 2, 3]))
   \<and> (\<exists>pair pubText privText.
        generateKeyPair demo_platform [1, 2, 3] = Inr pair
        \<and> exportPublicKey (publicKey pair) = Inr pubText
        \<and> exportPrivateKey (privateKey pair) = Inr privText
        \<and> importSigningPublicKey demo_platform pubText =
            Inr \<lparr>key_algorithm = RSA_PSS, key_type = Public, key_extractable = True,
                 key_usages = [Verify], key_material = key_material (publicKey pair)\<rparr>
        \<and> importSigningPrivateKey demo_platform privText =
            Inr \<lparr>key_algorithm = RSA_PSS, key_type = Private, key_extractable = True,
                 key_usages = [Sign], key_material = key_material (privateKey pair)\<rparr>)"
proof -
  have h1: "spki_valid demo_platform (fst (rsa_keygen demo_platform [1, 2, 3]))"
    by code_simp
  have h2: "pkcs8_valid demo_platform (snd (rsa_keygen demo_platform [1, 2, 3]))"
    by code_simp
  from import_assigns_the_purpose [OF h1 h2, THEN conjunct1] h1 h2
  show ?thesis by blast
qed

text \<open>
  C8 as stated fails: the public key of a pair generated for encryption, exported, is
  imported for signing without an error, and the result is a key that verifies.
\<close>

theorem wrong_purpose_import_counterexample:
  "map_sum id publicKey (generateKeyPair demo_platform [1, 2, 3]) = Inr demo_encryption_key
   \<and> exportPublicKey demo_encryption_key = Inr ''MAEBAgM=''
   \<and> importSigningPublicKey demo_platform ''MAEBAgM='' =
       Inr \<lparr>key_algorithm = RSA_PSS, key_type = Public, key_extractable = True,
            key_usages = [Verify], key_material = [0x30, 1, 1, 2, 3]\<rparr>"
  by code_simp

text \<open>
  C9. Base64 round trip: for every byte buffer \<open>b\<close>, \<open>base64ToArrayBuffer\<close> of
  \<open>arrayBufferToBase64 b\<close> returns, without throwing, a buffer with exactly the bytes of
  \<open>b\<close>. Hence every base64 field of an upload that \<open>handleSend\<close> hands to the network
  (the wrapped key, the nonce, the tag and the signature) decodes on the receiver, from the
  download the server relays, to the bytes the sender encoded.
\<close>

theorem base64_round_trip:
  "base64ToArrayBuffer (arrayBufferToBase64 b) = Inr b
   \<and> (CallSendFile p \<in> set (snd (handleSend P db send rnd sf rd)) \<longrightarrow>
        (\<exists>wrapped nonce tag sig.
           p_encryptedAESKey p = arrayBufferToBase64 wrapped
           \<and> p_nonce p = arrayBufferToBase64 nonce
           \<and> p_authTag p = arrayBufferToBase64 tag
           \<and> p_signature p = arrayBufferToBase64 sig
           \<and> base64ToArrayBuffer (d_encryptedAESKey (relayed p)) = Inr wrapped
           \<and> base64ToArrayBuffer (d_nonce (relayed p)) = Inr nonce
           \<and> base64ToArrayBuffer (d_authTag (relayed p)) = Inr tag
           \<and> base64ToArrayBuffer (d_signature (relayed p)) = Inr sig))"
proof (intro conjI impI)
  show "base64ToArrayBuffer (arrayBufferToBase64 b) = Inr b"
    by (rule base64_decode_encode)
next
  assume "CallSendFile p \<in> set (snd (handleSend P db send rnd sf rd))"
  from handleSend_sent [OF this] show "\<exists>wrapped nonce tag sig.
           p_encryptedAESKey p = arrayBufferToBase64 wrapped
           \<and> p_nonce p = arrayBufferToBase64 nonce
           \<and> p_authTag p = arrayBufferToBase64 tag
           \<and> p_signature p = arrayBufferToBase64 sig
           \<and> base64ToArrayBuffer (d_encryptedAESKey (relayed p)) = Inr wrapped
           \<and> base64ToArrayBuffer (d_nonce (relayed p)) = Inr nonce
           \<and> base64ToArrayBuffer (d_authTag (relayed p)) = Inr tag
           \<and> base64ToArrayBuffer (d_signature (relayed p)) = Inr sig"
    by (elim exE conjE) (auto simp: relayed_def base64_decode_encode)
qed

theorem base64_round_trip_witness:
  "CallSendFile demo_payload
     \<in> set (snd (handleSend demo_platform demo_db (\<lambda>p. Inr ''id1'') demo_rnd
                   (Some demo_file) (Some demo_receiver)))
   \<and> base64ToArrayBuffer (d_nonce (relayed demo_payload))
       = Inr [9, 8, 7, 6, 5, 4, 3, 2, 1, 0, 1, 2]
   \<and> (\<exists>nonce. p_nonce demo_payload = arrayBufferToBase64 nonce
        \<and> base64ToArrayBuffer (d_nonce (relayed demo_payload)) = Inr nonce)"
proof -
  have sent: "CallSendFile demo_payload
     \<in> set (snd (handleSend demo_platform demo_db (\<lambda>p. Inr ''id1'') demo_rnd
                   (Some demo_file) (Some demo_receiver)))"
    by (simp add: demo_send_run demo_send_log_def)
  have dec: "base64ToArrayBuffer (d_nonce (relayed demo_payload))
       = Inr [9, 8, 7, 6, 5, 4, 3, 2, 1, 0, 1, 2]"
    by code_simp
  from base64_round_trip [of "[]" demo_payload demo_platform demo_db "\<lambda>p. Inr ''id1''"
      demo_rnd "Some demo_file" "Some demo_receiver"] sent
  have "\<exists>nonce. p_nonce demo_payload = arrayBufferToBase64 nonce
        \<and> base64ToArrayBuffer (d_nonce (relayed demo_payload)) = Inr nonce"
    by blast
  with sent dec show ?thesis by blast
qed

text \<open>
  C10, as amended. For a database that opens, \<open>getKeys\<close> returns a non-null result if and
  only if all four entries are present and none is the empty string; the result then holds
  the four stored strings, and otherwise it is null. \<open>hasKeys\<close> is true exactly when
  \<open>getKeys\<close> returns the complete set of four. A database that fails to open makes both
  reject.
\<close>

theorem getKeys_all_or_nothing:
  "(\<exists>r. getKeys (Inr store) = Inr r
      \<and> (r \<noteq> None \<longleftrightarrow>
           (\<forall>name \<in> {''encryptionPublicKey'', ''encryptionPrivateKey'',
                       ''signingPublicKey'', ''signingPrivateKey''}.
              \<exists>v. store name = Some v \<and> v \<noteq> []))
      \<and> (\<forall>keys. r = Some keys \<longrightarrow>
           store ''encryptionPublicKey'' = Some (encryptionPublicKey keys)
           \<and> store ''encryptionPrivateKey'' = Some (encryptionPrivateKey keys)
           \<and> store ''signingPublicKey'' = Some (signingPublicKey keys)
           \<and> store ''signingPrivateKey'' = Some (signingPrivateKey keys))
      \<and> hasKeys (Inr store) = Inr (r \<noteq> None))
   \<and> getKeys (Inl e) = Inl e \<and> hasKeys (Inl e) = Inl e"
proof -
  have "\<exists>r. getKeys (Inr store) = Inr r
      \<and> (r \<noteq> None \<longleftrightarrow>
           (\<forall>name \<in> {''encryptionPublicKey'', ''encryptionPrivateKey'',
                       ''signingPublicKey'', ''signingPrivateKey''}.
              \<exists>v. store name = Some v \<and> v \<noteq> []))
      \<and> (\<forall>keys. r = Some keys \<longrightarrow>
           store ''encryptionPublicKey'' = Some (encryptionPublicKey keys)
           \<and> store ''encryptionPrivateKey'' = Some (encryptionPrivateKey keys)
           \<and> store ''signingPublicKey'' = Some (signingPublicKey keys)
           \<and> store ''signingPrivateKey'' = Some (signingPrivateKey keys))
      \<and> hasKeys (Inr store) = Inr (r \<noteq> None)"
    by (auto simp: getKeys_store hasKeys_def bind_def truthy_def split: option.splits)
  moreover have "getKeys (Inl e) = Inl e" "hasKeys (Inl e) = Inl e"
    by (simp_all add: getKeys_def hasKeys_def bind_def)
  ultimately show ?thesis by blast
qed

theorem getKeys_all_or_nothing_witness:
  "getKeys (Inr demo_full_store) = Inr (Some demo_keys)
   \<and> (\<exists>v. demo_full_store ''encryptionPrivateKey'' = Some v \<and> v \<noteq> [])
   \<and> demo_full_store ''signingPublicKey'' = Some (signingPublicKey demo_keys)
   \<and> hasKeys (Inr demo_full_store) = Inr True"
proof -
  have g: "getKeys (Inr demo_full_store) = Inr (Some demo_keys)"
    by (simp add: getKeys_store demo_full_store_def demo_keys_def truthy_def)
  from getKeys_all_or_nothing [of demo_full_store StorageError, THEN conjunct1] g
  have "(\<forall>name \<in> {''encryptionPublicKey'', ''encryptionPrivateKey'',
                  ''signingPublicKey'', ''signingPrivateKey''}.
         \<exists>v. demo_full_store name = Some v \<and> v \<noteq> [])
   \<and> demo_full_store ''signingPublicKey'' = Some (signingPublicKey demo_keys)
   \<and> hasKeys (Inr demo_full_store) = Inr True"
    by - (elim conjE exE, simp)
  with g show ?thesis by blast
qed

text \<open>
  C10 as stated fails: all four entries are present in this store, one of them the empty
  string, and \<open>getKeys\<close> returns null.
\<close>

theorem getKeys_present_counterexample:
  "demo_blank_store ''encryptionPublicKey'' = Some []
   \<and> demo_blank_store ''encryptionPrivateKey'' = Some ''MAIBAgM=''
   \<and> demo_blank_store ''signingPublicKey'' = Some ''MAEEBQY=''
   \<and> demo_blank_store ''signingPrivateKey'' = Some ''MAIEBQY=''
   \<and> getKeys (Inr demo_blank_store) = Inr None
   \<and> hasKeys (Inr demo_blank_store) = Inr False"
  by (simp add: getKeys_store hasKeys_def bind_def truthy_def demo_blank_store_def)


end
